theory Spec2Isabelle
  imports Complex_Main "HOL-Library.Sublist"
begin

section \<open>JavaScript values, errors and responses\<close>

text \<open>
  The program is \<^verbatim>\<open>src/meed.js\<close>. A promise is modelled by its outcome, a value of
  \<open>error + 'a\<close>: \<open>Inl e\<close> is a rejection (or a \<^verbatim>\<open>throw\<close> inside a \<^verbatim>\<open>.then\<close> callback or
  an \<^verbatim>\<open>async\<close> method, which JavaScript turns into a rejection), \<open>Inr v\<close> is fulfilment.

  Strings are \<open>string\<close>; one \<open>char\<close> stands for one code unit in the range
  U+0000 to U+00FF.
\<close>

datatype error =
    Error string            \<comment> \<open>\<^verbatim>\<open>throw new Error(msg)\<close>\<close>
  | TypeError string        \<comment> \<open>\<^verbatim>\<open>throw new TypeError(msg)\<close>\<close>
  | EngineTypeError         \<comment> \<open>a TypeError raised by the engine itself: a property read on
                                \<^verbatim>\<open>undefined\<close> or \<^verbatim>\<open>null\<close>, a call of something that is no
                                function; its message is the engine's\<close>
  | SyntaxError             \<comment> \<open>raised by \<^verbatim>\<open>JSON.parse\<close>\<close>
  | External string         \<comment> \<open>whatever an external collaborator rejects with\<close>

text \<open>
  What the program reads of a \<^verbatim>\<open>Response\<close>: \<^verbatim>\<open>res.ok\<close>, \<^verbatim>\<open>res.status\<close>,
  \<^verbatim>\<open>res.headers.get("Content-Type")\<close> (\<open>None\<close> is the \<^verbatim>\<open>null\<close> that \<^verbatim>\<open>Headers.get\<close>
  returns for a header the response does not carry) and the outcome of \<^verbatim>\<open>res.text()\<close>.
\<close>

record response =
  ok :: bool
  status :: nat
  content_type :: "string option"
  body_text :: "error + string"

text \<open>
  A JavaScript value. An object is the list of its properties, each once, in the order
  the engine enumerates them; a number is its real value, with \<^verbatim>\<open>NaN\<close> apart; a function
  value is what it returns on a URL string (the only call the program makes is
  \<^verbatim>\<open>this.fetch(url)\<close>, whose promise is modelled by its outcome).
\<close>

datatype jsval =
    JUndefined
  | JNull
  | JBool bool
  | JNum real
  | JNaN
  | JStr string
  | JArr "jsval list"
  | JObj "(string \<times> jsval) list"
  | JFun "string \<Rightarrow> error + response"

fun truthy :: "jsval \<Rightarrow> bool" where
  "truthy JUndefined = False"
| "truthy JNull = False"
| "truthy (JBool b) = b"
| "truthy (JNum r) = (r \<noteq> 0)"
| "truthy JNaN = False"
| "truthy (JStr s) = (s \<noteq> [])"
| "truthy (JArr xs) = True"
| "truthy (JObj kvs) = True"
| "truthy (JFun f) = True"

fun typeof :: "jsval \<Rightarrow> string" where
  "typeof JUndefined = ''undefined''"
| "typeof JNull = ''object''"
| "typeof (JBool b) = ''boolean''"
| "typeof (JNum r) = ''number''"
| "typeof JNaN = ''number''"
| "typeof (JStr s) = ''string''"
| "typeof (JArr xs) = ''object''"
| "typeof (JObj kvs) = ''object''"
| "typeof (JFun f) = ''function''"

text \<open>
  \<^verbatim>\<open>v.k\<close> and \<^verbatim>\<open>v[k]\<close> for the property names this program reads (\<^verbatim>\<open>items\<close>,
  \<^verbatim>\<open>isoDate\<close>, \<^verbatim>\<open>link\<close>, \<^verbatim>\<open>guid\<close>, \<^verbatim>\<open>title\<close>, \<^verbatim>\<open>creator\<close>, \<^verbatim>\<open>content:encoded\<close>,
  \<^verbatim>\<open>description\<close>, \<^verbatim>\<open>categories\<close>, \<^verbatim>\<open>success\<close>, \<^verbatim>\<open>payload\<close>, \<^verbatim>\<open>references\<close>,
  \<^verbatim>\<open>Topic\<close>, \<^verbatim>\<open>slug\<close>, \<^verbatim>\<open>name\<close>, \<^verbatim>\<open>image\<close>, \<^verbatim>\<open>id\<close>, \<^verbatim>\<open>proxy\<close>, \<^verbatim>\<open>fetch\<close>): reading
  a property of \<^verbatim>\<open>undefined\<close> or \<^verbatim>\<open>null\<close> throws, and a property an object does not have
  is \<^verbatim>\<open>undefined\<close>. The other values have none of these properties but two, which the
  data of this program never shows: a string inherits a method \<^verbatim>\<open>link\<close> (on an item that
  is a string \<^verbatim>\<open>item.link.split\<close> is no function and the call throws, as the read of
  \<^verbatim>\<open>split\<close> on \<^verbatim>\<open>undefined\<close> does here), and a function has a \<^verbatim>\<open>name\<close> (\<^verbatim>\<open>JSON.parse\<close>
  returns no function).
\<close>

fun get_prop :: "jsval \<Rightarrow> string \<Rightarrow> error + jsval" where
  "get_prop JUndefined k = Inl EngineTypeError"
| "get_prop JNull k = Inl EngineTypeError"
| "get_prop (JObj kvs) k = Inr (case map_of kvs k of None \<Rightarrow> JUndefined | Some v \<Rightarrow> v)"
| "get_prop v k = Inr JUndefined"

text \<open>\<^verbatim>\<open>p.then(f)\<close> on outcomes: a rejection passes through, a throw in \<open>f\<close> rejects.\<close>

definition andThen :: "error + 'a \<Rightarrow> ('a \<Rightarrow> error + 'b) \<Rightarrow> error + 'b" where
  "andThen p f = (case p of Inl e \<Rightarrow> Inl e | Inr v \<Rightarrow> f v)"

text \<open>\<^verbatim>\<open>xs.map(f)\<close> with a callback that may throw: the first throw ends the loop.\<close>

fun map_err :: "('a \<Rightarrow> error + 'b) \<Rightarrow> 'a list \<Rightarrow> error + 'b list" where
  "map_err f [] = Inr []"
| "map_err f (x # xs) =
     (case f x of
        Inl e \<Rightarrow> Inl e
      | Inr y \<Rightarrow> (case map_err f xs of Inl e \<Rightarrow> Inl e | Inr ys \<Rightarrow> Inr (y # ys)))"

section \<open>String operations of the language\<close>

text \<open>\<^verbatim>\<open>s.split(c)\<close> for a one-character separator: the pieces between the separators.\<close>

fun split_acc :: "char \<Rightarrow> string \<Rightarrow> string \<Rightarrow> string list" where
  "split_acc c acc [] = [rev acc]"
| "split_acc c acc (x # xs) =
     (if x = c then rev acc # split_acc c [] xs else split_acc c (x # acc) xs)"

definition split_str :: "string \<Rightarrow> char \<Rightarrow> string list" where
  "split_str s c = split_acc c [] s"

text \<open>\<^verbatim>\<open>v.split("?")\<close> on any value: only a string has the method.\<close>

definition call_split :: "jsval \<Rightarrow> char \<Rightarrow> error + jsval" where
  "call_split v c =
     (case v of JStr s \<Rightarrow> Inr (JArr (map JStr (split_str s c))) | _ \<Rightarrow> Inl EngineTypeError)"

text \<open>\<^verbatim>\<open>v[0]\<close> on an array.\<close>

definition index0 :: "jsval \<Rightarrow> jsval" where
  "index0 v = (case v of JArr (x # xs) \<Rightarrow> x | _ \<Rightarrow> JUndefined)"

text \<open>The values that are no objects: \<^verbatim>\<open>undefined\<close>, \<^verbatim>\<open>null\<close>, booleans, numbers, strings.\<close>

fun is_primitive :: "jsval \<Rightarrow> bool" where
  "is_primitive (JArr xs) = False"
| "is_primitive (JObj kvs) = False"
| "is_primitive (JFun f) = False"
| "is_primitive v = True"

text \<open>The two ways the language asks an object for a primitive value.\<close>

datatype hint = HintDefault | HintString

section \<open>The language and the libraries the program calls\<close>

text \<open>
  What the program takes from outside its own file: \<^verbatim>\<open>JSON.parse\<close>, the
  \<^verbatim>\<open>parseString\<close> method of the \<^verbatim>\<open>rss-parser\<close> package, the language's conversion of
  a primitive value to a string, its conversion of an object to a primitive value
  (\<open>None\<close> where the object has none and the engine throws its TypeError; the data this
  program converts are plain, so no function of the program's data runs there), and the
  global \<^verbatim>\<open>self\<close> (\<open>JUndefined\<close> where the host declares none: \<^verbatim>\<open>typeof self\<close> is then
  \<^verbatim>\<open>"undefined"\<close>).
\<close>

record env =
  JSON_parse :: "string \<Rightarrow> error + jsval"
  parseString :: "string \<Rightarrow> error + jsval"
  ToString :: "jsval \<Rightarrow> string"
  ToPrimitive :: "hint \<Rightarrow> jsval \<Rightarrow> jsval option"
  self :: jsval

text \<open>
  A value inside a template literal: a string stands for itself, another primitive is
  converted, an object is first asked for a primitive value, which throws when it has
  none.
\<close>

definition tpl :: "env \<Rightarrow> jsval \<Rightarrow> error + string" where
  "tpl e v =
     (case v of
        JStr s \<Rightarrow> Inr s
      | _ \<Rightarrow>
          if is_primitive v then Inr (ToString e v)
          else (case ToPrimitive e HintString v of
                  None \<Rightarrow> Inl EngineTypeError
                | Some p \<Rightarrow> Inr (case p of JStr s \<Rightarrow> s | _ \<Rightarrow> ToString e p)))"

text \<open>
  A template literal: its pieces of text (\<open>Inl\<close>) and its substitutions (\<open>Inr\<close>), converted
  from left to right.
\<close>

fun template :: "env \<Rightarrow> (string + jsval) list \<Rightarrow> error + string" where
  "template e [] = Inr []"
| "template e (Inl s # ps) = andThen (template e ps) (\<lambda>r. Inr (s @ r))"
| "template e (Inr v # ps) =
     andThen (tpl e v) (\<lambda>s. andThen (template e ps) (\<lambda>r. Inr (s @ r)))"

text \<open>
  \<^verbatim>\<open>new Date(v)\<close>: an object is first asked for a primitive value, which throws when it
  has none; the result stands for the date built from \<open>v\<close>.
\<close>

definition new_Date :: "env \<Rightarrow> jsval \<Rightarrow> error + jsval" where
  "new_Date e v =
     (if is_primitive v then Inr v
      else (case ToPrimitive e HintDefault v of None \<Rightarrow> Inl EngineTypeError | Some p \<Rightarrow> Inr v))"

text \<open>A natural number inside a template literal: its decimal digits.\<close>

fun dec :: "nat \<Rightarrow> string" where
  "dec n = (if n < 10 then [char_of (48 + n)] else dec (n div 10) @ [char_of (48 + n mod 10)])"

text \<open>
  \<^verbatim>\<open>s.toLowerCase()\<close>: in the range U+0000 to U+00FF the capital letters are A to Z and
  U+00C0 to U+00DE without the multiplication sign U+00D7, each 32 below its small
  letter.
\<close>

definition lower_char :: "char \<Rightarrow> char" where
  "lower_char c =
     (let n = (of_char c :: nat)
      in if (65 \<le> n \<and> n \<le> 90) \<or> (192 \<le> n \<and> n \<le> 222 \<and> n \<noteq> 215) then char_of (n + 32) else c)"

definition toLowerCase :: "string \<Rightarrow> string" where
  "toLowerCase s = map lower_char s"

text \<open>\<^verbatim>\<open>s.includes(t)\<close>: \<open>t\<close> occurs in \<open>s\<close> as a run of consecutive characters.\<close>

fun includes_str :: "string \<Rightarrow> string \<Rightarrow> bool" where
  "includes_str [] t = (t = [])"
| "includes_str (x # xs) t = (prefix t (x # xs) \<or> includes_str xs t)"

text \<open>
  \<^verbatim>\<open>s.slice(k)\<close> for an integer \<open>k\<close>: from position \<open>k\<close> on, a negative \<open>k\<close> counting
  from the end.
\<close>

definition slice :: "string \<Rightarrow> int \<Rightarrow> string" where
  "slice s k = (if k < 0 then drop (nat (int (length s) + k)) s else drop (nat k) s)"

text \<open>
  \<^verbatim>\<open>Object.entries(v)\<close>: the properties of an object, the elements of an array and the
  characters of a string under their indices, nothing for another primitive or a
  function.
\<close>

fun object_entries :: "jsval \<Rightarrow> error + (string \<times> jsval) list" where
  "object_entries JUndefined = Inl EngineTypeError"
| "object_entries JNull = Inl EngineTypeError"
| "object_entries (JObj kvs) = Inr kvs"
| "object_entries (JArr xs) = Inr (zip (map dec [0..<length xs]) xs)"
| "object_entries (JStr s) = Inr (zip (map dec [0..<length s]) (map (\<lambda>c. JStr [c]) s))"
| "object_entries v = Inr []"

text \<open>\<^verbatim>\<open>f(url)\<close>: calling something that is no function throws.\<close>

definition call_fun :: "jsval \<Rightarrow> string \<Rightarrow> error + response" where
  "call_fun f url = (case f of JFun g \<Rightarrow> g url | _ \<Rightarrow> Inl EngineTypeError)"

section \<open>Constants and functions of the module\<close>

definition BASE :: string where
  "BASE = ''https://medium.com''"

definition CDN :: string where
  "CDN = ''https://cdn-images-1.medium.com''"

text \<open>\<^verbatim>\<open>check\<close>, lines 21 to 29.\<close>

definition check :: "response \<Rightarrow> string \<Rightarrow> error + string" where
  "check res type =
     (if \<not> ok res then Inl (Error (''Response code not OK: '' @ dec (status res)))
      else case content_type res of
        None \<Rightarrow> Inl EngineTypeError
      | Some h \<Rightarrow>
          if \<not> includes_str (toLowerCase h) type
          then Inl (Error (''Response type not '' @ type @ '': '' @ h))
          else body_text res)"

text \<open>\<^verbatim>\<open>parseRSS\<close>, line 35.\<close>

definition parseRSS :: "env \<Rightarrow> string \<Rightarrow> error + jsval" where
  "parseRSS e rss = parseString e rss"

text \<open>\<^verbatim>\<open>parseTopics\<close>, line 42; \<open>None\<close> is the omitted offset, which defaults to 16.\<close>

definition parseTopics :: "env \<Rightarrow> string \<Rightarrow> int option \<Rightarrow> error + jsval" where
  "parseTopics e json offset =
     JSON_parse e (slice json (case offset of None \<Rightarrow> 16 | Some k \<Rightarrow> k))"

text \<open>The object \<^verbatim>\<open>formatTopics\<close> builds for one entry of the reference map.\<close>

record topic_item =
  topic_slug :: jsval
  topic_link :: string
  topic_name :: jsval
  topic_image :: string
  topic_description :: jsval

text \<open>The callback of the \<^verbatim>\<open>map\<close> in \<^verbatim>\<open>formatTopics\<close>, lines 77 to 85; \<^verbatim>\<open>topic[1]\<close> is
  the value of the entry.\<close>

definition formatTopics_entry :: "env \<Rightarrow> string \<times> jsval \<Rightarrow> error + topic_item" where
  "formatTopics_entry e topic =
     andThen (get_prop (snd topic) ''slug'') (\<lambda>slug.
     andThen (get_prop (snd topic) ''slug'') (\<lambda>slug'.
     andThen (template e [Inr (JStr BASE), Inl ''/topic/'', Inr slug']) (\<lambda>lnk.
     andThen (get_prop (snd topic) ''name'') (\<lambda>nm.
     andThen (get_prop (snd topic) ''image'') (\<lambda>img.
     andThen (get_prop img ''id'') (\<lambda>img_id.
     andThen (template e [Inr (JStr CDN), Inl ''/'', Inr img_id]) (\<lambda>image_url.
     andThen (get_prop (snd topic) ''description'') (\<lambda>descr.
       Inr \<lparr> topic_slug = slug,
             topic_link = lnk,
             topic_name = nm,
             topic_image = image_url,
             topic_description = descr \<rparr>))))))))"

text \<open>\<^verbatim>\<open>json.payload.references.Topic\<close>.\<close>

definition topic_refs :: "jsval \<Rightarrow> error + jsval" where
  "topic_refs json =
     andThen (get_prop json ''payload'') (\<lambda>payload.
     andThen (get_prop payload ''references'') (\<lambda>refs. get_prop refs ''Topic''))"

text \<open>\<^verbatim>\<open>formatTopics\<close>, lines 73 to 86; the \<^verbatim>\<open>||\<close> reads the reference map only when
  \<^verbatim>\<open>json.success\<close> is truthy.\<close>

definition formatTopics :: "env \<Rightarrow> jsval \<Rightarrow> error + topic_item list" where
  "formatTopics e json =
     andThen (get_prop json ''success'') (\<lambda>success.
     andThen (if \<not> truthy success then Inr True
              else andThen (topic_refs json) (\<lambda>t. Inr (\<not> truthy t))) (\<lambda>invalid.
       if invalid then Inl (Error ''Invalid topics JSON'')
       else andThen (topic_refs json) (\<lambda>t.
            andThen (object_entries t) (\<lambda>entries. map_err (formatTopics_entry e) entries))))"

section \<open>The feed formatter\<close>

text \<open>
  The object \<^verbatim>\<open>formatRSS\<close> builds for one item. \<open>date\<close> stands for the date built from
  \<^verbatim>\<open>item.isoDate\<close>; nothing here reads it.
\<close>

record feed_item =
  date :: jsval
  link :: jsval
  guid :: jsval
  title :: jsval
  author :: jsval
  content :: jsval
  categories :: jsval

text \<open>The callback of \<^verbatim>\<open>json.items.map\<close>, lines 51 to 66.\<close>

definition formatRSS_item :: "env \<Rightarrow> string \<Rightarrow> jsval \<Rightarrow> error + feed_item" where
  "formatRSS_item e ctag item =
     andThen (get_prop item ''isoDate'') (\<lambda>isoDate.
     andThen (new_Date e isoDate) (\<lambda>d.
     andThen (get_prop item ''link'') (\<lambda>l.
     andThen (call_split l CHR ''?'') (\<lambda>parts.
     andThen (get_prop item ''guid'') (\<lambda>g.
     andThen (get_prop item ''title'') (\<lambda>t.
     andThen (get_prop item ''creator'') (\<lambda>cr.
     andThen (get_prop item ctag) (\<lambda>co.
     andThen (get_prop item ''categories'') (\<lambda>cats.
       Inr \<lparr> date = d, link = index0 parts, guid = g, title = t, author = cr,
             content = co, categories = (if truthy cats then cats else JArr []) \<rparr>)))))))))"

text \<open>\<^verbatim>\<open>json.items.map(f)\<close>: only an array has \<^verbatim>\<open>map\<close>.\<close>

definition call_map :: "jsval \<Rightarrow> (jsval \<Rightarrow> error + 'a) \<Rightarrow> error + 'a list" where
  "call_map v f = (case v of JArr xs \<Rightarrow> map_err f xs | _ \<Rightarrow> Inl EngineTypeError)"

text \<open>\<^verbatim>\<open>formatRSS\<close>, lines 49 to 67.\<close>

definition formatRSS :: "env \<Rightarrow> jsval \<Rightarrow> string \<Rightarrow> error + feed_item list" where
  "formatRSS e json type =
     (let ctag = (if type \<in> set [''user'', ''publication''] then ''content:encoded''
                  else ''description'')
      in andThen (get_prop json ''items'') (\<lambda>items. call_map items (formatRSS_item e ctag)))"

section \<open>The client\<close>

text \<open>The fields the constructor sets: \<^verbatim>\<open>this.proxy\<close> and \<^verbatim>\<open>this.fetch\<close>.\<close>

record client =
  proxy :: jsval
  fetch :: jsval

text \<open>
  A call of a public method is modelled by the URLs the transport was applied to, in
  order, and the outcome of the promise the method returns. \<open>request\<close> is the one place
  where the transport runs: \<^verbatim>\<open>this.fetch(url)\<close> applies it to \<open>url\<close> and records that.
  \<open>then_call\<close> is \<^verbatim>\<open>.then(f)\<close> on such a call, for a callback that requests nothing.
\<close>

type_synonym 'a call = "string list \<times> (error + 'a)"

definition request :: "client \<Rightarrow> string \<Rightarrow> response call" where
  "request this url = ([url], call_fun (fetch this) url)"

definition then_call :: "'a call \<Rightarrow> ('a \<Rightarrow> error + 'b) \<Rightarrow> 'b call" where
  "then_call c f = (fst c, andThen (snd c) f)"

text \<open>A method that throws before it requests anything.\<close>

definition reject :: "error \<Rightarrow> 'a call" where
  "reject err = ([], Inl err)"

text \<open>\<^verbatim>\<open>getRSS\<close>, lines 95 to 100.\<close>

definition getRSS :: "env \<Rightarrow> client \<Rightarrow> string \<Rightarrow> string \<Rightarrow> string \<Rightarrow> feed_item list call" where
  "getRSS e this url feedType contentType =
     then_call (then_call (then_call (request this url)
       (\<lambda>res. check res contentType))
       (\<lambda>rss. parseRSS e rss))
       (\<lambda>json. formatRSS e json feedType)"

text \<open>\<^verbatim>\<open>getTopics\<close>, lines 108 to 113.\<close>

definition getTopics :: "env \<Rightarrow> client \<Rightarrow> string \<Rightarrow> string \<Rightarrow> topic_item list call" where
  "getTopics e this url contentType =
     then_call (then_call (then_call (request this url)
       (\<lambda>res. check res contentType))
       (\<lambda>json. parseTopics e json None))
       (\<lambda>json. formatTopics e json)"

text \<open>The default parameter \<^verbatim>\<open>options = {}\<close>: an omitted argument is \<open>JUndefined\<close>.\<close>

definition default_options :: "jsval \<Rightarrow> jsval" where
  "default_options options0 = (if options0 = JUndefined then JObj [] else options0)"

text \<open>The constructor, lines 124 to 136. \<^verbatim>\<open>self.fetch.bind(self)\<close> calls \<^verbatim>\<open>self.fetch\<close>.\<close>

definition Meed :: "env \<Rightarrow> jsval \<Rightarrow> error + client" where
  "Meed e options0 =
     (let options = default_options options0 in
      andThen (get_prop options ''proxy'') (\<lambda>p.
        let this_proxy = (if truthy p then p else JBool False) in
        if this_proxy \<noteq> JBool False \<and> typeof this_proxy \<noteq> ''string''
        then Inl (TypeError ''Proxy must be a string'')
        else
          andThen (if typeof (self e) = ''object''
                   then andThen (get_prop (self e) ''fetch'') (\<lambda>sf. Inr (typeof sf = ''function''))
                   else Inr False) (\<lambda>ambient.
          andThen (if ambient then get_prop (self e) ''fetch'' else get_prop options ''fetch'')
            (\<lambda>this_fetch.
              if typeof this_fetch \<noteq> ''function''
              then Inl (TypeError ''Fetch is required and must be a function'')
              else Inr \<lparr> proxy = this_proxy, fetch = this_fetch \<rparr>))))"

text \<open>\<^verbatim>\<open>typeof v === "string" && v.length > 0\<close>.\<close>

definition nonempty_string :: "jsval \<Rightarrow> bool" where
  "nonempty_string v = (typeof v = ''string'' \<and> (case v of JStr s \<Rightarrow> length s > 0 | _ \<Rightarrow> False))"

text \<open>\<^verbatim>\<open>user\<close>, lines 142 to 149.\<close>

definition user :: "env \<Rightarrow> client \<Rightarrow> jsval \<Rightarrow> feed_item list call" where
  "user e this user0 =
     (if \<not> nonempty_string user0
      then reject (TypeError ''User is required and must be a string'')
      else
        case (if truthy (proxy this)
              then template e [Inr (proxy this), Inr (JStr BASE), Inl ''/feed/@'', Inr user0]
              else template e [Inr (JStr BASE), Inl ''/feed/@'', Inr user0]) of
          Inl err \<Rightarrow> reject err
        | Inr url \<Rightarrow> getRSS e this url ''user'' ''text/xml'')"

text \<open>\<^verbatim>\<open>publication\<close>, lines 156 to 168; an omitted \<^verbatim>\<open>tag\<close> is \<open>JUndefined\<close>.\<close>

definition publication :: "env \<Rightarrow> client \<Rightarrow> jsval \<Rightarrow> jsval \<Rightarrow> feed_item list call" where
  "publication e this publication0 tag0 =
     (if \<not> nonempty_string publication0
      then reject (TypeError ''Publication is required and must be a string'')
      else if tag0 \<noteq> JUndefined \<and> \<not> nonempty_string tag0
      then reject (TypeError ''Tag must be a string'')
      else
        case (if truthy (proxy this)
              then template e [Inr (proxy this), Inr (JStr BASE), Inl ''/feed/'', Inr publication0]
              else template e [Inr (JStr BASE), Inl ''/feed/'', Inr publication0]) of
          Inl err \<Rightarrow> reject err
        | Inr url \<Rightarrow>
            (case (if tag0 \<noteq> JUndefined
                   then andThen (template e [Inl ''/tagged/'', Inr tag0]) (\<lambda>t. Inr (url @ t))
                   else Inr url) of
               Inl err \<Rightarrow> reject err
             | Inr url' \<Rightarrow> getRSS e this url' ''publication'' ''text/xml''))"

text \<open>\<^verbatim>\<open>topic\<close>, lines 174 to 181.\<close>

definition topic :: "env \<Rightarrow> client \<Rightarrow> jsval \<Rightarrow> feed_item list call" where
  "topic e this topic0 =
     (if \<not> nonempty_string topic0
      then reject (TypeError ''Topic is required and must be a string'')
      else
        case (if truthy (proxy this)
              then template e [Inr (proxy this), Inr (JStr BASE), Inl ''/feed/topic/'', Inr topic0]
              else template e [Inr (JStr BASE), Inl ''/feed/topic/'', Inr topic0]) of
          Inl err \<Rightarrow> reject err
        | Inr url \<Rightarrow> getRSS e this url ''topic'' ''text/xml'')"

text \<open>\<^verbatim>\<open>topics\<close>, lines 186 to 190.\<close>

definition topics :: "env \<Rightarrow> client \<Rightarrow> topic_item list call" where
  "topics e this =
     (case (if truthy (proxy this)
            then template e [Inr (proxy this), Inr (JStr BASE), Inl ''/topics?format=json'']
            else template e [Inr (JStr BASE), Inl ''/topics?format=json'']) of
        Inl err \<Rightarrow> reject err
      | Inr url \<Rightarrow> getTopics e this url ''application/json'')"

text \<open>\<^verbatim>\<open>tag\<close>, lines 196 to 203.\<close>

definition tag :: "env \<Rightarrow> client \<Rightarrow> jsval \<Rightarrow> feed_item list call" where
  "tag e this tag0 =
     (if \<not> nonempty_string tag0
      then reject (TypeError ''Tag is required and must be a string'')
      else
        case (if truthy (proxy this)
              then template e [Inr (proxy this), Inr (JStr BASE), Inl ''/feed/tag/'', Inr tag0]
              else template e [Inr (JStr BASE), Inl ''/feed/tag/'', Inr tag0]) of
          Inl err \<Rightarrow> reject err
        | Inr url \<Rightarrow> getRSS e this url ''tag'' ''text/xml'')"

section \<open>Sample data\<close>

text \<open>A parsed feed of two items; the second has a link and nothing else.\<close>

definition demo_items :: "jsval list" where
  "demo_items =
     [JObj [(''isoDate'', JStr ''2019-03-01T10:00:00.000Z''),
            (''link'', JStr ''https://medium.com/p/1?source=rss''),
            (''guid'', JStr ''https://medium.com/p/1''),
            (''title'', JStr ''Hello''),
            (''creator'', JStr ''Alice''),
            (''content:encoded'', JStr ''<p>full</p>''),
            (''description'', JStr ''short''),
            (''categories'', JArr [JStr ''js''])],
      JObj [(''link'', JStr ''https://medium.com/p/2'')]]"

definition demo_feed :: jsval where
  "demo_feed = JObj [(''title'', JStr ''Feed''), (''items'', JArr demo_items)]"

text \<open>Two responses: an RSS body served as XML, and a 404 page.\<close>

definition demo_xml_response :: response where
  "demo_xml_response =
     \<lparr> ok = True, status = 200, content_type = Some ''Text/XML; charset=UTF-8'',
       body_text = Inr ''<rss/>'' \<rparr>"

definition demo_404_response :: response where
  "demo_404_response =
     \<lparr> ok = False, status = 404, content_type = Some ''text/html'',
       body_text = Inr ''<html>not found</html>'' \<rparr>"

text \<open>
  A reader for the JSON texts of the samples, to stand for \<^verbatim>\<open>JSON.parse\<close> there:
  objects whose keys are distinct and no array indices, arrays, strings without escapes,
  \<^verbatim>\<open>true\<close>, \<^verbatim>\<open>false\<close> and \<^verbatim>\<open>null\<close>. It rejects every other text.
\<close>

fun skip_ws :: "string \<Rightarrow> string" where
  "skip_ws [] = []"
| "skip_ws (c # cs) =
     (if c = CHR '' '' \<or> c = CHR 0x09 \<or> c = CHR 0x0A \<or> c = CHR 0x0D then skip_ws cs else c # cs)"

fun read_chars :: "string \<Rightarrow> string \<Rightarrow> (string \<times> string) option" where
  "read_chars acc [] = None"
| "read_chars acc (c # cs) =
     (if c = CHR 0x22 then Some (rev acc, cs)
      else if c = CHR 0x5C \<or> of_char c < (32::nat) then None
      else read_chars (c # acc) cs)"

definition index_like :: "string \<Rightarrow> bool" where
  "index_like k = (k \<noteq> [] \<and> list_all (\<lambda>c. 48 \<le> (of_char c :: nat) \<and> (of_char c :: nat) \<le> 57) k)"

fun read_value :: "nat \<Rightarrow> string \<Rightarrow> (jsval \<times> string) option"
  and read_members :: "nat \<Rightarrow> (string \<times> jsval) list \<Rightarrow> string \<Rightarrow> (jsval \<times> string) option"
  and read_elements :: "nat \<Rightarrow> jsval list \<Rightarrow> string \<Rightarrow> (jsval \<times> string) option"
where
  "read_value 0 s = None"
| "read_value (Suc n) s =
     (case skip_ws s of
        [] \<Rightarrow> None
      | c # cs \<Rightarrow>
          if c = CHR 0x22 then
            (case read_chars [] cs of None \<Rightarrow> None | Some (str, r) \<Rightarrow> Some (JStr str, r))
          else if c = CHR ''{'' then
            (case skip_ws cs of
               [] \<Rightarrow> None
             | d # ds \<Rightarrow> if d = CHR ''}'' then Some (JObj [], ds) else read_members n [] (d # ds))
          else if c = CHR ''['' then
            (case skip_ws cs of
               [] \<Rightarrow> None
             | d # ds \<Rightarrow> if d = CHR '']'' then Some (JArr [], ds) else read_elements n [] (d # ds))
          else if prefix ''true'' (c # cs) then Some (JBool True, drop 4 (c # cs))
          else if prefix ''false'' (c # cs) then Some (JBool False, drop 5 (c # cs))
          else if prefix ''null'' (c # cs) then Some (JNull, drop 4 (c # cs))
          else None)"
| "read_members 0 acc s = None"
| "read_members (Suc n) acc s =
     (case skip_ws s of
        [] \<Rightarrow> None
      | q # cs \<Rightarrow>
          if q \<noteq> CHR 0x22 then None
          else
            (case read_chars [] cs of
               None \<Rightarrow> None
             | Some (k, r) \<Rightarrow>
                 if index_like k \<or> k \<in> set (map fst acc) then None
                 else
                   (case skip_ws r of
                      [] \<Rightarrow> None
                    | colon # r' \<Rightarrow>
                        if colon \<noteq> CHR '':'' then None
                        else
                          (case read_value n r' of
                             None \<Rightarrow> None
                           | Some (v, r'') \<Rightarrow>
                               (case skip_ws r'' of
                                  [] \<Rightarrow> None
                                | d # ds \<Rightarrow>
                                    if d = CHR '','' then read_members n (acc @ [(k, v)]) ds
                                    else if d = CHR ''}'' then Some (JObj (acc @ [(k, v)]), ds)
                                    else None)))))"
| "read_elements 0 acc s = None"
| "read_elements (Suc n) acc s =
     (case read_value n s of
        None \<Rightarrow> None
      | Some (v, r) \<Rightarrow>
          (case skip_ws r of
             [] \<Rightarrow> None
           | d # ds \<Rightarrow>
               if d = CHR '','' then read_elements n (acc @ [v]) ds
               else if d = CHR '']'' then Some (JArr (acc @ [v]), ds)
               else None))"

definition read_json :: "string \<Rightarrow> error + jsval" where
  "read_json s =
     (case read_value (Suc (length s)) s of
        None \<Rightarrow> Inl SyntaxError
      | Some (v, r) \<Rightarrow> if skip_ws r = [] then Inr v else Inl SyntaxError)"

text \<open>The body of the topics scenario and the object it denotes after its guard.\<close>

definition scenario_body :: string where
  \<open>scenario_body = ''])}while(1);</x>{"success":true,"payload":{"references":{"Topic":{"t1":{"slug":"ai","name":"AI","image":{"id":"img1"},"description":"d"}}}}}''\<close>

definition scenario_json :: jsval where
  "scenario_json =
     JObj [(''success'', JBool True),
           (''payload'', JObj [(''references'', JObj [(''Topic'', JObj [(''t1'',
              JObj [(''slug'', JStr ''ai''), (''name'', JStr ''AI''),
                    (''image'', JObj [(''id'', JStr ''img1'')]),
                    (''description'', JStr ''d'')])])])])]"

text \<open>What the scenario expects of \<^verbatim>\<open>topics()\<close>.\<close>

definition scenario_topics :: "topic_item list" where
  "scenario_topics =
     [\<lparr> topic_slug = JStr ''ai'', topic_link = ''https://medium.com/topic/ai'',
         topic_name = JStr ''AI'', topic_image = ''https://cdn-images-1.medium.com/img1'',
         topic_description = JStr ''d'' \<rparr>]"

text \<open>
  An environment without a global \<^verbatim>\<open>self\<close>. Its conversions are right on
  \<^verbatim>\<open>undefined\<close>, \<^verbatim>\<open>null\<close>, booleans, \<^verbatim>\<open>NaN\<close>, natural numbers and objects without
  \<^verbatim>\<open>toString\<close> and \<^verbatim>\<open>valueOf\<close> of their own; the samples convert nothing but strings. Its
  transport serves the topics scenario, one feed, and a 404 page elsewhere.
\<close>

fun demo_ToString :: "jsval \<Rightarrow> string" where
  "demo_ToString JUndefined = ''undefined''"
| "demo_ToString JNull = ''null''"
| "demo_ToString (JBool b) = (if b then ''true'' else ''false'')"
| "demo_ToString JNaN = ''NaN''"
| "demo_ToString (JNum r) = dec (nat \<lfloor>r\<rfloor>)"
| "demo_ToString (JStr s) = s"
| "demo_ToString v = ''[object Object]''"

definition demo_ToPrimitive :: "hint \<Rightarrow> jsval \<Rightarrow> jsval option" where
  "demo_ToPrimitive h v =
     (case v of
        JObj kvs \<Rightarrow>
          if map_of kvs ''toString'' = None \<and> map_of kvs ''valueOf'' = None
          then Some (JStr ''[object Object]'') else None
      | _ \<Rightarrow> None)"

definition demo_env :: env where
  "demo_env =
     \<lparr> JSON_parse = read_json,
       parseString = (\<lambda>rss. if rss = ''<rss/>'' then Inr demo_feed
                            else Inl (External ''rss-parser: no feed'')),
       ToString = demo_ToString,
       ToPrimitive = demo_ToPrimitive,
       self = JUndefined \<rparr>"

definition demo_topics_response :: response where
  "demo_topics_response =
     \<lparr> ok = True, status = 200, content_type = Some ''application/json; charset=utf-8'',
       body_text = Inr scenario_body \<rparr>"

definition demo_fetch :: "string \<Rightarrow> error + response" where
  "demo_fetch url =
     (if url = ''https://medium.com/topics?format=json'' then Inr demo_topics_response
      else if url = ''https://medium.com/feed/@alice'' then Inr demo_xml_response
      else Inr demo_404_response)"

definition demo_client :: client where
  "demo_client = \<lparr> proxy = JBool False, fetch = JFun demo_fetch \<rparr>"

text \<open>A browser-like environment, whose global \<^verbatim>\<open>self\<close> has a \<^verbatim>\<open>fetch\<close> of its own, and
  options with a proxy.\<close>

definition ambient_fetch :: "string \<Rightarrow> error + response" where
  "ambient_fetch url = Inl (External ''Failed to fetch'')"

definition demo_browser_env :: env where
  "demo_browser_env = demo_env \<lparr> self := JObj [(''fetch'', JFun ambient_fetch)] \<rparr>"

definition demo_options :: jsval where
  "demo_options = JObj [(''proxy'', JStr ''https://cors.io/?''), (''fetch'', JFun demo_fetch)]"

section \<open>Basic facts\<close>

lemma andThen_Inr [simp]: "andThen (Inr v) f = f v"
  by (simp add: andThen_def)

lemma andThen_Inl [simp]: "andThen (Inl e) f = Inl e"
  by (simp add: andThen_def)

lemma map_err_Inr_iff:
  "map_err f xs = Inr ys \<longleftrightarrow> list_all2 (\<lambda>x y. f x = Inr y) xs ys"
proof (induction xs arbitrary: ys)
  case Nil
  then show ?case by auto
next
  case (Cons x xs)
  show ?case
  proof (cases "f x")
    case (Inl e)
    then show ?thesis by (auto simp: list_all2_Cons1)
  next
    case fx: (Inr y)
    show ?thesis
    proof (cases "map_err f xs")
      case (Inl e)
      then have "\<not> list_all2 (\<lambda>x y. f x = Inr y) xs zs" for zs
        using Cons.IH [of zs] by simp
      with fx Inl show ?thesis by (auto simp: list_all2_Cons1)
    next
      case (Inr zs)
      then have "list_all2 (\<lambda>x y. f x = Inr y) xs ws \<longleftrightarrow> ws = zs" for ws
        using Cons.IH [of ws] by auto
      with fx Inr show ?thesis by (auto simp: list_all2_Cons1)
    qed
  qed
qed

lemma map_err_total:
  "(\<forall>x \<in> set xs. \<exists>y. f x = Inr y) \<Longrightarrow> \<exists>ys. map_err f xs = Inr ys"
proof (induction xs)
  case Nil
  then show ?case by simp
next
  case (Cons x xs)
  then obtain y ys where "f x = Inr y" "map_err f xs = Inr ys" by auto
  then show ?case by simp
qed

lemma get_prop_JStr_obj:
  "get_prop item k = Inr (JStr l) \<Longrightarrow> \<exists>kvs. item = JObj kvs"
  by (cases item) auto

lemma split_acc_hd:
  "\<exists>rest. split_acc c acc s = (rev acc @ takeWhile (\<lambda>x. x \<noteq> c) s) # rest"
proof (induction s arbitrary: acc)
  case Nil
  then show ?case by simp
next
  case (Cons a s)
  show ?case
  proof (cases "a = c")
    case True
    then show ?thesis by simp
  next
    case False
    with Cons [of "a # acc"] show ?thesis by simp
  qed
qed

lemma index0_split:
  "index0 (JArr (map JStr (split_str s c))) = JStr (takeWhile (\<lambda>x. x \<noteq> c) s)"
proof -
  obtain rest where "split_acc c [] s = takeWhile (\<lambda>x. x \<noteq> c) s # rest"
    using split_acc_hd [of c "[]" s] by auto
  then show ?thesis by (simp add: index0_def split_str_def)
qed

lemma andThen_Inr_cases:
  "andThen p f = Inr y \<Longrightarrow> \<exists>v. p = Inr v \<and> f v = Inr y"
  by (cases p) auto

lemma andThen_Inl_cases:
  "andThen p f = Inl err \<Longrightarrow> p = Inl err \<or> (\<exists>v. p = Inr v \<and> f v = Inl err)"
  by (cases p) auto

lemma andThen_assoc:
  "andThen (andThen p f) g = andThen p (\<lambda>x. andThen (f x) g)"
  by (cases p) simp_all

lemma getRSS_unfold:
  "getRSS e this url kind ct =
     ([url], andThen (call_fun (fetch this) url) (\<lambda>res.
             andThen (check res ct) (\<lambda>rss.
             andThen (parseRSS e rss) (\<lambda>json. formatRSS e json kind))))"
  by (simp add: getRSS_def then_call_def request_def andThen_assoc)

lemma getTopics_unfold:
  "getTopics e this url ct =
     ([url], andThen (call_fun (fetch this) url) (\<lambda>res.
             andThen (check res ct) (\<lambda>body.
             andThen (parseTopics e body None) (\<lambda>json. formatTopics e json))))"
  by (simp add: getTopics_def then_call_def request_def andThen_assoc)

lemma tpl_JStr [simp]: "tpl e (JStr s) = Inr s"
  by (simp add: tpl_def)

lemma tpl_Inl: "tpl e v = Inl err \<Longrightarrow> err = EngineTypeError"
  by (cases v) (auto simp: tpl_def split: option.splits if_splits)

lemma template_Inl: "template e ps = Inl err \<Longrightarrow> err = EngineTypeError"
proof (induction ps)
  case Nil
  then show ?case by simp
next
  case (Cons p ps)
  then show ?case
    by (cases p) (auto dest!: andThen_Inl_cases dest: tpl_Inl)
qed

lemma new_Date_primitive: "is_primitive d \<Longrightarrow> new_Date e d = Inr d"
  by (simp add: new_Date_def)

lemma new_Date_Inr: "new_Date e d = Inr d' \<Longrightarrow> d' = d"
  by (auto simp: new_Date_def split: if_splits option.splits)

lemma formatRSS_item_string_link:
  assumes "get_prop item ''link'' = Inr (JStr l)"
    and "get_prop item ''isoDate'' = Inr d"
    and "new_Date e d = Inr d"
  shows "\<exists>fi. formatRSS_item e ctag item = Inr fi \<and>
           link fi = JStr (takeWhile (\<lambda>x. x \<noteq> CHR ''?'') l) \<and>
           date fi = d \<and>
           get_prop item ''guid'' = Inr (guid fi) \<and>
           get_prop item ''title'' = Inr (title fi) \<and>
           get_prop item ''creator'' = Inr (author fi) \<and>
           get_prop item ctag = Inr (content fi) \<and>
           (\<exists>cats. get_prop item ''categories'' = Inr cats \<and>
              categories fi = (if truthy cats then cats else JArr []))"
proof -
  obtain kvs where "item = JObj kvs" using assms(1) get_prop_JStr_obj by blast
  with assms show ?thesis
    by (simp add: formatRSS_item_def call_split_def index0_split)
qed

lemma formatRSS_item_Inr_link:
  assumes "formatRSS_item e ctag item = Inr fi"
  shows "\<exists>l d. get_prop item ''link'' = Inr (JStr l) \<and>
           get_prop item ''isoDate'' = Inr d \<and> new_Date e d = Inr d"
proof -
  from assms obtain d where d: "get_prop item ''isoDate'' = Inr d"
    unfolding formatRSS_item_def by (blast dest: andThen_Inr_cases)
  from assms d obtain d' where d': "new_Date e d = Inr d'"
    unfolding formatRSS_item_def by (auto dest!: andThen_Inr_cases)
  then have nd: "new_Date e d = Inr d" using new_Date_Inr by blast
  from assms d nd obtain v where v: "get_prop item ''link'' = Inr v"
    unfolding formatRSS_item_def by (auto dest!: andThen_Inr_cases)
  from assms d nd v obtain parts where "call_split v CHR ''?'' = Inr parts"
    unfolding formatRSS_item_def by (auto dest!: andThen_Inr_cases)
  then obtain l where "v = JStr l"
    by (cases v) (simp_all add: call_split_def)
  with d nd v show ?thesis by blast
qed

lemma formatRSS_item_Inr:
  assumes "formatRSS_item e ctag item = Inr fi"
  shows "\<exists>l. get_prop item ''link'' = Inr (JStr l) \<and>
           link fi = JStr (takeWhile (\<lambda>x. x \<noteq> CHR ''?'') l) \<and>
           get_prop item ''isoDate'' = Inr (date fi) \<and>
           get_prop item ''guid'' = Inr (guid fi) \<and>
           get_prop item ''title'' = Inr (title fi) \<and>
           get_prop item ''creator'' = Inr (author fi) \<and>
           get_prop item ctag = Inr (content fi) \<and>
           (\<exists>cats. get_prop item ''categories'' = Inr cats \<and>
              categories fi = (if truthy cats then cats else JArr []))"
proof -
  obtain l d where l: "get_prop item ''link'' = Inr (JStr l)"
    and d: "get_prop item ''isoDate'' = Inr d" and nd: "new_Date e d = Inr d"
    using formatRSS_item_Inr_link [OF assms] by blast
  from formatRSS_item_string_link [OF l d nd, where ctag = ctag] assms l d show ?thesis
    by auto
qed

lemma formatRSS_Inr_iff:
  "formatRSS e json kind = Inr out \<longleftrightarrow>
     (\<exists>items. get_prop json ''items'' = Inr (JArr items) \<and>
        list_all2 (\<lambda>it fi. formatRSS_item e
           (if kind \<in> set [''user'', ''publication''] then ''content:encoded'' else ''description'')
           it = Inr fi) items out)"
proof (cases "get_prop json ''items''")
  case (Inl e)
  then show ?thesis by (simp add: formatRSS_def)
next
  case (Inr v)
  then show ?thesis
    by (cases v) (simp_all add: formatRSS_def call_map_def map_err_Inr_iff)
qed

lemma demo_feed_user:
  "formatRSS demo_env demo_feed ''user'' =
     Inr [\<lparr> date = JStr ''2019-03-01T10:00:00.000Z'', link = JStr ''https://medium.com/p/1'',
             guid = JStr ''https://medium.com/p/1'', title = JStr ''Hello'',
             author = JStr ''Alice'', content = JStr ''<p>full</p>'',
             categories = JArr [JStr ''js''] \<rparr>,
          \<lparr> date = JUndefined, link = JStr ''https://medium.com/p/2'',
             guid = JUndefined, title = JUndefined,
             author = JUndefined, content = JUndefined,
             categories = JArr [] \<rparr>]"
  by (simp add: demo_feed_def demo_items_def formatRSS_def call_map_def formatRSS_item_def new_Date_def
      call_split_def split_str_def index0_def)

lemma demo_feed_items: "get_prop demo_feed ''items'' = Inr (JArr demo_items)"
  by (simp add: demo_feed_def)

section \<open>The feed formatter: content, links, one object per item\<close>

text \<open>
  C1. Whenever the feed formatter returns, it returns one object per element of
  \<^verbatim>\<open>json.items\<close>, and the content of the i-th object is the \<^verbatim>\<open>content:encoded\<close> property
  of the i-th item when the kind is \<^verbatim>\<open>user\<close> or \<^verbatim>\<open>publication\<close>, and its
  \<^verbatim>\<open>description\<close> property when the kind is \<^verbatim>\<open>topic\<close> or \<^verbatim>\<open>tag\<close> (\<^verbatim>\<open>undefined\<close> where the
  item has no such property).
\<close>

theorem formatRSS_content_by_kind:
  assumes "formatRSS e json kind = Inr out"
  shows "\<exists>items. get_prop json ''items'' = Inr (JArr items) \<and> length out = length items \<and>
           (kind = ''user'' \<or> kind = ''publication'' \<longrightarrow>
              (\<forall>i < length items.
                 get_prop (items ! i) ''content:encoded'' = Inr (content (out ! i)))) \<and>
           (kind = ''topic'' \<or> kind = ''tag'' \<longrightarrow>
              (\<forall>i < length items.
                 get_prop (items ! i) ''description'' = Inr (content (out ! i))))"
proof -
  let ?ctag = "if kind \<in> set [''user'', ''publication''] then ''content:encoded'' else ''description''"
  from assms obtain items where
    items: "get_prop json ''items'' = Inr (JArr items)" and
    all2: "list_all2 (\<lambda>it fi. formatRSS_item e ?ctag it = Inr fi) items out"
    unfolding formatRSS_Inr_iff by blast
  have len: "length out = length items"
    using all2 by (simp add: list_all2_lengthD)
  have each: "get_prop (items ! i) ?ctag = Inr (content (out ! i))" if "i < length items" for i
  proof -
    have "formatRSS_item e ?ctag (items ! i) = Inr (out ! i)"
      using all2 that by (simp add: list_all2_conv_all_nth)
    from formatRSS_item_Inr [OF this] show ?thesis by blast
  qed
  have enc: "\<forall>i < length items. get_prop (items ! i) ''content:encoded'' = Inr (content (out ! i))"
    if "kind = ''user'' \<or> kind = ''publication''"
    using each that by auto
  have descr: "\<forall>i < length items. get_prop (items ! i) ''description'' = Inr (content (out ! i))"
    if "kind = ''topic'' \<or> kind = ''tag''"
    using each that by auto
  from items len enc descr show ?thesis by blast
qed

lemma demo_feed_topic_returns: "\<exists>out. formatRSS demo_env demo_feed ''topic'' = Inr out"
  by (simp add: demo_feed_def demo_items_def formatRSS_def call_map_def formatRSS_item_def new_Date_def
      call_split_def split_str_def index0_def)

theorem formatRSS_content_by_kind_witness:
  "(\<exists>out. formatRSS demo_env demo_feed ''user'' = Inr out \<and> length out = 2 \<and>
      content (out ! 0) = JStr ''<p>full</p>'' \<and> content (out ! 1) = JUndefined) \<and>
   (\<exists>out. formatRSS demo_env demo_feed ''topic'' = Inr out \<and> length out = 2 \<and>
      content (out ! 0) = JStr ''short'' \<and> content (out ! 1) = JUndefined)"
proof -
  have a: "\<exists>out. formatRSS demo_env demo_feed ''user'' = Inr out \<and> length out = 2 \<and>
      content (out ! 0) = JStr ''<p>full</p>'' \<and> content (out ! 1) = JUndefined"
  proof -
    obtain out where out: "formatRSS demo_env demo_feed ''user'' = Inr out"
      using demo_feed_user by blast
    from formatRSS_content_by_kind [OF out] obtain items where
      items: "get_prop demo_feed ''items'' = Inr (JArr items)" and
      len: "length out = length items" and
      all: "\<forall>i < length items. get_prop (items ! i) ''content:encoded'' = Inr (content (out ! i))"
      by auto
    from items have eq: "items = demo_items"
      by (simp add: demo_feed_items)
    from len eq have l2: "length out = 2"
      by (simp add: demo_items_def)
    from all [rule_format, of 0] eq have c0: "content (out ! 0) = JStr ''<p>full</p>''"
      by (simp add: demo_items_def)
    from all [rule_format, of 1] eq have c1: "content (out ! 1) = JUndefined"
      by (simp add: demo_items_def)
    from out l2 c0 c1 show ?thesis by blast
  qed
  have b: "\<exists>out. formatRSS demo_env demo_feed ''topic'' = Inr out \<and> length out = 2 \<and>
      content (out ! 0) = JStr ''short'' \<and> content (out ! 1) = JUndefined"
  proof -
    obtain out where out: "formatRSS demo_env demo_feed ''topic'' = Inr out"
      using demo_feed_topic_returns by blast
    from formatRSS_content_by_kind [OF out] obtain items where
      items: "get_prop demo_feed ''items'' = Inr (JArr items)" and
      len: "length out = length items" and
      all: "\<forall>i < length items. get_prop (items ! i) ''description'' = Inr (content (out ! i))"
      by auto
    from items have eq: "items = demo_items"
      by (simp add: demo_feed_items)
    from len eq have l2: "length out = 2"
      by (simp add: demo_items_def)
    from all [rule_format, of 0] eq have c0: "content (out ! 0) = JStr ''short''"
      by (simp add: demo_items_def)
    from all [rule_format, of 1] eq have c1: "content (out ! 1) = JUndefined"
      by (simp add: demo_items_def)
    from out l2 c0 c1 show ?thesis by blast
  qed
  from a b show ?thesis by blast
qed

text \<open>
  C6. For an item whose link is a string, in whatever the formatter returns for the feed
  the link of that item's object is the part of the original link before its first
  question mark, or the whole link when it has none. The callback of the formatter
  returns on such an item when its \<^verbatim>\<open>isoDate\<close> is absent or a primitive value.
\<close>

theorem formatRSS_link_before_query:
  assumes "get_prop json ''items'' = Inr (JArr items)"
    and "i < length items"
    and "get_prop (items ! i) ''link'' = Inr (JStr l)"
  shows "((\<exists>d. get_prop (items ! i) ''isoDate'' = Inr d \<and> is_primitive d) \<longrightarrow>
            (\<exists>fi. formatRSS_item e ctag (items ! i) = Inr fi)) \<and>
         (\<forall>out. formatRSS e json kind = Inr out \<longrightarrow>
            (\<forall>pre post. l = pre @ ''?'' @ post \<and> CHR ''?'' \<notin> set pre \<longrightarrow>
               link (out ! i) = JStr pre) \<and>
            (CHR ''?'' \<notin> set l \<longrightarrow> link (out ! i) = JStr l))"
proof -
  have ex: "\<exists>fi. formatRSS_item e ctag (items ! i) = Inr fi"
    if "\<exists>d. get_prop (items ! i) ''isoDate'' = Inr d \<and> is_primitive d"
  proof -
    from that obtain d where d: "get_prop (items ! i) ''isoDate'' = Inr d" "is_primitive d"
      by blast
    from formatRSS_item_string_link [OF assms(3) d(1) new_Date_primitive [OF d(2)], where ctag = ctag]
    show ?thesis by blast
  qed
  have lnk: "(\<forall>pre post. l = pre @ ''?'' @ post \<and> CHR ''?'' \<notin> set pre \<longrightarrow>
               link (out ! i) = JStr pre) \<and>
            (CHR ''?'' \<notin> set l \<longrightarrow> link (out ! i) = JStr l)"
    if out: "formatRSS e json kind = Inr out" for out
  proof -
    let ?ctag = "if kind \<in> set [''user'', ''publication''] then ''content:encoded'' else ''description''"
    from out assms(1) have "list_all2 (\<lambda>it fi. formatRSS_item e ?ctag it = Inr fi) items out"
      unfolding formatRSS_Inr_iff by auto
    with assms(2) have "formatRSS_item e ?ctag (items ! i) = Inr (out ! i)"
      by (simp add: list_all2_conv_all_nth)
    from formatRSS_item_Inr [OF this] assms(3)
    have eq: "link (out ! i) = JStr (takeWhile (\<lambda>x. x \<noteq> CHR ''?'') l)"
      by auto
    have 1: "takeWhile (\<lambda>x. x \<noteq> CHR ''?'') l = pre"
      if "l = pre @ ''?'' @ post" "CHR ''?'' \<notin> set pre" for pre post
    proof -
      have "\<forall>x \<in> set pre. x \<noteq> CHR ''?''" using that(2) by auto
      then have "takeWhile (\<lambda>x. x \<noteq> CHR ''?'') (pre @ ''?'' @ post) = pre"
        by (induction pre) auto
      with that(1) show ?thesis by simp
    qed
    have 2: "takeWhile (\<lambda>x. x \<noteq> CHR ''?'') l = l" if "CHR ''?'' \<notin> set l"
      using that by (auto simp: takeWhile_eq_all_conv)
    from eq 1 2 show ?thesis by auto
  qed
  from ex lnk show ?thesis by blast
qed

theorem formatRSS_link_before_query_witness:
  "\<exists>out. formatRSS demo_env demo_feed ''user'' = Inr out \<and>
     link (out ! 0) = JStr ''https://medium.com/p/1'' \<and>
     link (out ! 1) = JStr ''https://medium.com/p/2''"
proof -
  obtain out where out: "formatRSS demo_env demo_feed ''user'' = Inr out"
    using demo_feed_user by blast
  have l0: "get_prop (demo_items ! 0) ''link'' = Inr (JStr ''https://medium.com/p/1?source=rss'')"
    by (simp add: demo_items_def)
  have l1: "get_prop (demo_items ! 1) ''link'' = Inr (JStr ''https://medium.com/p/2'')"
    by (simp add: demo_items_def)
  have n0: "(0::nat) < length demo_items" and n1: "(1::nat) < length demo_items"
    by (simp_all add: demo_items_def)
  have "''https://medium.com/p/1?source=rss'' = ''https://medium.com/p/1'' @ ''?'' @ ''source=rss''
      \<and> CHR ''?'' \<notin> set ''https://medium.com/p/1''"
    by simp
  with formatRSS_link_before_query
    [OF demo_feed_items n0 l0, of demo_env "''content:encoded''" "''user''"] out
  have a: "link (out ! 0) = JStr ''https://medium.com/p/1''"
    by blast
  have "CHR ''?'' \<notin> set ''https://medium.com/p/2''"
    by simp
  with formatRSS_link_before_query
    [OF demo_feed_items n1 l1, of demo_env "''content:encoded''" "''user''"] out
  have b: "link (out ! 1) = JStr ''https://medium.com/p/2''"
    by blast
  from out a b show ?thesis by blast
qed

text \<open>
  C10, as the code has it. When \<^verbatim>\<open>json.items\<close> is an array and every item has a string
  link and an \<^verbatim>\<open>isoDate\<close> that is absent or a primitive value, the formatter returns one
  object per item, the i-th built from the i-th item (its date, guid, title and author
  are the item's \<^verbatim>\<open>isoDate\<close>, \<^verbatim>\<open>guid\<close>, \<^verbatim>\<open>title\<close> and \<^verbatim>\<open>creator\<close>), and an item without
  \<^verbatim>\<open>categories\<close> gets the empty array.
\<close>

theorem formatRSS_one_per_item:
  assumes "get_prop json ''items'' = Inr (JArr items)"
    and "\<forall>it \<in> set items. (\<exists>l. get_prop it ''link'' = Inr (JStr l)) \<and>
           (\<exists>d. get_prop it ''isoDate'' = Inr d \<and> is_primitive d)"
  shows "\<exists>out. formatRSS e json kind = Inr out \<and> length out = length items \<and>
           (\<forall>i < length items.
              get_prop (items ! i) ''isoDate'' = Inr (date (out ! i)) \<and>
              get_prop (items ! i) ''guid'' = Inr (guid (out ! i)) \<and>
              get_prop (items ! i) ''title'' = Inr (title (out ! i)) \<and>
              get_prop (items ! i) ''creator'' = Inr (author (out ! i)) \<and>
              (get_prop (items ! i) ''categories'' = Inr JUndefined \<longrightarrow>
                 categories (out ! i) = JArr []))"
proof -
  let ?ctag = "if kind \<in> set [''user'', ''publication''] then ''content:encoded'' else ''description''"
  have "\<exists>fi. formatRSS_item e ?ctag it = Inr fi" if "it \<in> set items" for it
  proof -
    from assms(2) that obtain l d where
      l: "get_prop it ''link'' = Inr (JStr l)" and
      d: "get_prop it ''isoDate'' = Inr d" "is_primitive d"
      by blast
    from formatRSS_item_string_link [OF l d(1) new_Date_primitive [OF d(2)], where ctag = "?ctag"]
    show ?thesis by blast
  qed
  then have "\<forall>it \<in> set items. \<exists>fi. formatRSS_item e ?ctag it = Inr fi"
    by blast
  then obtain out where m: "map_err (formatRSS_item e ?ctag) items = Inr out"
    using map_err_total by blast
  then have all2: "list_all2 (\<lambda>it fi. formatRSS_item e ?ctag it = Inr fi) items out"
    by (simp add: map_err_Inr_iff)
  with assms(1) have out: "formatRSS e json kind = Inr out"
    unfolding formatRSS_Inr_iff by blast
  have len: "length out = length items"
    using all2 by (simp add: list_all2_lengthD)
  have each: "get_prop (items ! i) ''isoDate'' = Inr (date (out ! i)) \<and>
              get_prop (items ! i) ''guid'' = Inr (guid (out ! i)) \<and>
              get_prop (items ! i) ''title'' = Inr (title (out ! i)) \<and>
              get_prop (items ! i) ''creator'' = Inr (author (out ! i)) \<and>
              (get_prop (items ! i) ''categories'' = Inr JUndefined \<longrightarrow>
                 categories (out ! i) = JArr [])"
    if "i < length items" for i
  proof -
    have "formatRSS_item e ?ctag (items ! i) = Inr (out ! i)"
      using all2 that by (simp add: list_all2_conv_all_nth)
    from formatRSS_item_Inr [OF this] show ?thesis by auto
  qed
  from out len each show ?thesis by blast
qed

theorem formatRSS_one_per_item_witness:
  "\<exists>out. formatRSS demo_env demo_feed ''tag'' = Inr out \<and> length out = 2 \<and>
     title (out ! 0) = JStr ''Hello'' \<and> title (out ! 1) = JUndefined \<and>
     categories (out ! 1) = JArr []"
proof -
  have links: "\<forall>it \<in> set demo_items. (\<exists>l. get_prop it ''link'' = Inr (JStr l)) \<and>
      (\<exists>d. get_prop it ''isoDate'' = Inr d \<and> is_primitive d)"
    by (simp add: demo_items_def)
  from formatRSS_one_per_item [OF demo_feed_items links, of demo_env "''tag''"] obtain out where
    out: "formatRSS demo_env demo_feed ''tag'' = Inr out" and
    len: "length out = length demo_items" and
    all: "\<forall>i < length demo_items.
              get_prop (demo_items ! i) ''isoDate'' = Inr (date (out ! i)) \<and>
              get_prop (demo_items ! i) ''guid'' = Inr (guid (out ! i)) \<and>
              get_prop (demo_items ! i) ''title'' = Inr (title (out ! i)) \<and>
              get_prop (demo_items ! i) ''creator'' = Inr (author (out ! i)) \<and>
              (get_prop (demo_items ! i) ''categories'' = Inr JUndefined \<longrightarrow>
                 categories (out ! i) = JArr [])"
    by blast
  from len have l2: "length out = 2"
    by (simp add: demo_items_def)
  from all [rule_format, of 0] have t0: "title (out ! 0) = JStr ''Hello''"
    by (simp add: demo_items_def)
  from all [rule_format, of 1] have t1: "title (out ! 1) = JUndefined \<and> categories (out ! 1) = JArr []"
    by (simp add: demo_items_def)
  from out l2 t0 t1 show ?thesis by blast
qed

theorem formatRSS_item_without_link_counterexample:
  "formatRSS demo_env (JObj [(''items'', JArr [JObj [(''title'', JStr ''no link'')]])]) ''user''
     = Inl EngineTypeError"
  by (simp add: formatRSS_def call_map_def formatRSS_item_def new_Date_def call_split_def)

section \<open>The response validator\<close>

declare dec.simps [simp del]

lemma includes_str_sublist: "includes_str s t \<longleftrightarrow> sublist t s"
  by (induction s) (auto simp: sublist_Cons_right)

lemma dec_404: "dec 404 = ''404''"
  by code_simp

lemma dec_value: "foldl (\<lambda>a c. 10 * a + (of_char c - 48)) 0 (dec n) = n"
proof (induction n rule: dec.induct)
  case (1 n)
  show ?case
  proof (cases "n < 10")
    case True
    then show ?thesis by (simp add: dec.simps [of n])
  next
    case False
    with 1 have "foldl (\<lambda>a c. 10 * a + (of_char c - 48)) 0 (dec (n div 10)) = n div 10"
      by simp
    with False show ?thesis
      by (simp add: dec.simps [of n])
  qed
qed

lemma lower_demo: "toLowerCase ''Text/XML; charset=UTF-8'' = ''text/xml; charset=utf-8''"
  by code_simp

lemma lower_xml: "toLowerCase ''text/xml'' = ''text/xml''"
  by (simp add: toLowerCase_def lower_char_def)

text \<open>
  C3, as the code has it. A response that is not ok is rejected with an \<^verbatim>\<open>Error\<close> whose
  message ends in the decimal status code, whatever its headers and body. For an ok
  response that carries a Content-Type header and an expected type without capital
  letters (the code passes \<^verbatim>\<open>text/xml\<close> and \<^verbatim>\<open>application/json\<close>): when the header does
  not contain the type, case ignored, the response is rejected with an \<^verbatim>\<open>Error\<close> whose
  message holds both the expected type and the header; otherwise the outcome is that of
  reading the body text.
\<close>

theorem check_response:
  "(\<not> ok res \<longrightarrow>
      check res type = Inl (Error (''Response code not OK: '' @ dec (status res)))) \<and>
   (ok res \<and> toLowerCase type = type \<longrightarrow>
      (\<forall>h. content_type res = Some h \<longrightarrow>
         (\<not> sublist (toLowerCase type) (toLowerCase h) \<longrightarrow>
            check res type = Inl (Error (''Response type not '' @ type @ '': '' @ h)) \<and>
            sublist type (''Response type not '' @ type @ '': '' @ h) \<and>
            sublist h (''Response type not '' @ type @ '': '' @ h)) \<and>
         (sublist (toLowerCase type) (toLowerCase h) \<longrightarrow> check res type = body_text res)))"
proof -
  have a: "check res type = Inl (Error (''Response code not OK: '' @ dec (status res)))"
    if "\<not> ok res"
    using that by (simp add: check_def)
  have s1: "sublist type (''Response type not '' @ type @ '': '' @ h)" for h
    by (rule sublist_appendI)
  have s2: "sublist h (''Response type not '' @ type @ '': '' @ h)" for h
    using sublist_appendI [of h "''Response type not '' @ type @ '': ''" "[]"] by simp
  have b: "check res type = Inl (Error (''Response type not '' @ type @ '': '' @ h))"
    if "ok res" "toLowerCase type = type" "content_type res = Some h"
      "\<not> sublist (toLowerCase type) (toLowerCase h)" for h
    using that by (simp add: check_def includes_str_sublist)
  have c: "check res type = body_text res"
    if "ok res" "toLowerCase type = type" "content_type res = Some h"
      "sublist (toLowerCase type) (toLowerCase h)" for h
    using that by (simp add: check_def includes_str_sublist)
  from a b c s1 s2 show ?thesis by blast
qed

theorem check_response_witness:
  "check demo_404_response ''text/xml'' = Inl (Error ''Response code not OK: 404'') \<and>
   check demo_xml_response ''text/xml'' = Inr ''<rss/>'' \<and>
   check demo_xml_response ''application/json'' =
     Inl (Error ''Response type not application/json: Text/XML; charset=UTF-8'')"
proof -
  have n: "\<not> ok demo_404_response" "status demo_404_response = 404"
    by (simp_all add: demo_404_response_def)
  have o: "ok demo_xml_response"
    "content_type demo_xml_response = Some ''Text/XML; charset=UTF-8''"
    "body_text demo_xml_response = Inr ''<rss/>''"
    by (simp_all add: demo_xml_response_def)
  have lj: "toLowerCase ''application/json'' = ''application/json''"
    by (simp add: toLowerCase_def lower_char_def)
  have yes: "sublist (toLowerCase ''text/xml'') (toLowerCase ''Text/XML; charset=UTF-8'')"
    unfolding lower_demo lower_xml includes_str_sublist [symmetric] by simp
  have no: "\<not> sublist (toLowerCase ''application/json'') (toLowerCase ''Text/XML; charset=UTF-8'')"
    unfolding lower_demo lj includes_str_sublist [symmetric] by simp
  from check_response [of demo_404_response "''text/xml''"] n
  have a: "check demo_404_response ''text/xml'' = Inl (Error ''Response code not OK: 404'')"
    by (simp add: dec_404)
  from check_response [of demo_xml_response "''text/xml''"] o lower_xml yes
  have b: "check demo_xml_response ''text/xml'' = Inr ''<rss/>''"
    by simp
  from check_response [of demo_xml_response "''application/json''"] o lj no
  have c: "check demo_xml_response ''application/json'' =
     Inl (Error ''Response type not application/json: Text/XML; charset=UTF-8'')"
    by simp
  from a b c show ?thesis by blast
qed

theorem check_without_content_type_counterexample:
  "check \<lparr> ok = True, status = 200, content_type = None, body_text = Inr ''<rss/>'' \<rparr>
     ''text/xml'' = Inl EngineTypeError"
  by (simp add: check_def)

section \<open>The topics decoder and formatter\<close>

lemma read_scenario: "read_json (drop 16 scenario_body) = Inr scenario_json"
  by (simp add: read_json_def scenario_body_def scenario_json_def index_like_def)


lemma get_prop_Inl: "get_prop v k = Inl err \<Longrightarrow> err = EngineTypeError"
  by (cases v) auto










lemma slice_nonneg: "0 \<le> k \<Longrightarrow> slice s k = drop (nat k) s"
  by (simp add: slice_def)

lemma formatTopics_scenario: "formatTopics e scenario_json = Inr scenario_topics"
  by (simp add: formatTopics_def topic_refs_def scenario_json_def scenario_topics_def
      formatTopics_entry_def tpl_def BASE_def CDN_def)

text \<open>
  C5. The topics decoder hands \<^verbatim>\<open>JSON.parse\<close> the text without its first \<open>offset\<close>
  characters, 16 when no offset is given. End to end: when the transport answers the
  request of \<^verbatim>\<open>topics()\<close> with an ok response whose Content-Type contains
  \<^verbatim>\<open>application/json\<close> and whose body is the text of the scenario, and \<^verbatim>\<open>JSON.parse\<close>
  reads the text after the 16 characters of the guard as the object it denotes, the call
  returns the one topic of the scenario.
\<close>

theorem parseTopics_scenario:
  "parseTopics e json None = JSON_parse e (drop 16 json) \<and>
   (\<forall>k. 0 \<le> k \<longrightarrow> parseTopics e json (Some k) = JSON_parse e (drop (nat k) json)) \<and>
   (\<forall>url res h.
      fst (topics e this) = [url] \<and> call_fun (fetch this) url = Inr res \<and>
      ok res \<and> content_type res = Some h \<and> sublist ''application/json'' (toLowerCase h) \<and>
      body_text res = Inr scenario_body \<and>
      JSON_parse e (drop 16 scenario_body) = Inr scenario_json \<longrightarrow>
      snd (topics e this) = Inr scenario_topics)"
proof -
  have a: "parseTopics e json None = JSON_parse e (drop 16 json)"
    by (simp add: parseTopics_def slice_def)
  have b: "parseTopics e json (Some k) = JSON_parse e (drop (nat k) json)" if "0 \<le> k" for k
    using that by (simp add: parseTopics_def slice_nonneg)
  have c: "snd (topics e this) = Inr scenario_topics"
    if u: "fst (topics e this) = [url]" and f: "call_fun (fetch this) url = Inr res"
      and r: "ok res" "content_type res = Some h" "sublist ''application/json'' (toLowerCase h)"
        "body_text res = Inr scenario_body"
      and j: "JSON_parse e (drop 16 scenario_body) = Inr scenario_json"
    for url res h
  proof -
    have chk: "check res ''application/json'' = Inr scenario_body"
      using r by (simp add: check_def includes_str_sublist)
    have prs: "parseTopics e scenario_body None = Inr scenario_json"
      using j by (simp add: parseTopics_def slice_def)
    from u have "snd (topics e this) =
        andThen (call_fun (fetch this) url) (\<lambda>res.
        andThen (check res ''application/json'') (\<lambda>json.
        andThen (parseTopics e json None) (\<lambda>json'. formatTopics e json')))"
      by (auto simp: topics_def getTopics_unfold reject_def split: sum.splits if_splits)
    with f chk prs show ?thesis
      by (simp add: formatTopics_scenario)
  qed
  from a b c show ?thesis by blast
qed

lemma lower_json_header:
  "toLowerCase ''application/json; charset=utf-8'' = ''application/json; charset=utf-8''"
  by code_simp

theorem parseTopics_scenario_witness:
  "parseTopics demo_env scenario_body (Some 16) = Inr scenario_json \<and>
   topics demo_env demo_client = ([''https://medium.com/topics?format=json''], Inr scenario_topics)"
proof -
  let ?url = "''https://medium.com/topics?format=json''"
  have j: "JSON_parse demo_env (drop 16 scenario_body) = Inr scenario_json"
    by (simp add: demo_env_def read_scenario)
  have u: "fst (topics demo_env demo_client) = [?url]"
    by (simp add: topics_def getTopics_unfold demo_client_def BASE_def)
  have f: "call_fun (fetch demo_client) ?url = Inr demo_topics_response"
    by (simp add: call_fun_def demo_client_def demo_fetch_def)
  have r: "ok demo_topics_response"
    "content_type demo_topics_response = Some ''application/json; charset=utf-8''"
    "body_text demo_topics_response = Inr scenario_body"
    by (simp_all add: demo_topics_response_def)
  have h: "sublist ''application/json'' (toLowerCase ''application/json; charset=utf-8'')"
    unfolding lower_json_header includes_str_sublist [symmetric] by simp
  from parseTopics_scenario [of demo_env scenario_body demo_client] j
  have a: "parseTopics demo_env scenario_body (Some 16) = Inr scenario_json"
    by simp
  from parseTopics_scenario [of demo_env scenario_body demo_client] u f r h j
  have "snd (topics demo_env demo_client) = Inr scenario_topics"
    by blast
  with u have b: "topics demo_env demo_client = ([?url], Inr scenario_topics)"
    by (simp add: prod_eq_iff)
  from a b show ?thesis by blast
qed

section \<open>The client: construction, request URLs, argument checks\<close>

lemma nonempty_string_iff: "nonempty_string v \<longleftrightarrow> (\<exists>s. v = JStr s \<and> s \<noteq> [])"
  by (cases v) (auto simp: nonempty_string_def)

lemma typeof_string: "typeof v = ''string'' \<longleftrightarrow> (\<exists>s. v = JStr s)"
  by (cases v) auto

lemma typeof_function: "typeof v = ''function'' \<longleftrightarrow> (\<exists>g. v = JFun g)"
  by (cases v) auto

lemma Meed_bad_proxy:
  assumes "get_prop (default_options options) ''proxy'' = Inr p"
    and "truthy p" and "typeof p \<noteq> ''string''"
  shows "Meed e options = Inl (TypeError ''Proxy must be a string'')"
proof -
  from assms(2) have "p \<noteq> JBool False" by auto
  with assms show ?thesis by (simp add: Meed_def Let_def)
qed

lemma Meed_good_proxy:
  assumes "get_prop (default_options options) ''proxy'' = Inr p"
    and "\<not> truthy p \<or> typeof p = ''string''"
  shows "Meed e options =
     andThen (if typeof (self e) = ''object''
              then andThen (get_prop (self e) ''fetch'') (\<lambda>sf. Inr (typeof sf = ''function''))
              else Inr False) (\<lambda>ambient.
     andThen (if ambient then get_prop (self e) ''fetch''
              else get_prop (default_options options) ''fetch'') (\<lambda>this_fetch.
       if typeof this_fetch \<noteq> ''function''
       then Inl (TypeError ''Fetch is required and must be a function'')
       else Inr \<lparr> proxy = (if truthy p then p else JBool False), fetch = this_fetch \<rparr>))"
proof (cases "truthy p")
  case True
  with assms(2) have "typeof p = ''string''" by simp
  with assms(1) True show ?thesis
    unfolding Meed_def Let_def by simp
next
  case False
  with assms(1) show ?thesis
    unfolding Meed_def Let_def by simp
qed

lemma Meed_Inr:
  assumes "Meed e options = Inr this"
  shows "\<exists>p. get_prop (default_options options) ''proxy'' = Inr p \<and>
           (\<not> truthy p \<or> typeof p = ''string'') \<and>
           proxy this = (if truthy p then p else JBool False) \<and>
           typeof (fetch this) = ''function''"
proof (cases "get_prop (default_options options) ''proxy''")
  case (Inl err)
  with assms show ?thesis by (simp add: Meed_def Let_def)
next
  case (Inr p)
  have ok: "\<not> truthy p \<or> typeof p = ''string''"
  proof (rule ccontr)
    assume "\<not> (\<not> truthy p \<or> typeof p = ''string'')"
    then have "truthy p" "typeof p \<noteq> ''string''" by auto
    from Meed_bad_proxy [OF Inr this] assms show False by simp
  qed
  from assms obtain a f where
    "(if typeof f \<noteq> ''function''
       then Inl (TypeError ''Fetch is required and must be a function'')
       else Inr \<lparr> proxy = (if truthy p then p else JBool False), fetch = f \<rparr>) = Inr this"
    unfolding Meed_good_proxy [OF Inr ok]
    by (blast dest: andThen_Inr_cases)
  then have "proxy this = (if truthy p then p else JBool False) \<and> typeof (fetch this) = ''function''"
    by (auto split: if_splits)
  with Inr ok show ?thesis by blast
qed

lemma Meed_proxy_cases:
  assumes "Meed e options = Inr this"
  shows "proxy this = JBool False \<or> (\<exists>p. p \<noteq> [] \<and> proxy this = JStr p)"
proof -
  from Meed_Inr [OF assms] obtain p where
    ok: "\<not> truthy p \<or> typeof p = ''string''" and
    pr: "proxy this = (if truthy p then p else JBool False)"
    by blast
  show ?thesis
  proof (cases "truthy p")
    case False
    with pr show ?thesis by simp
  next
    case True
    with ok obtain s where "p = JStr s" by (auto simp: typeof_string)
    with True pr show ?thesis by auto
  qed
qed

lemma user_call:
  assumes "n \<noteq> []" and "proxy this = JBool False \<and> pre = [] \<or> proxy this = JStr pre \<and> pre \<noteq> []"
  shows "user e this (JStr n) =
     getRSS e this (pre @ ''https://medium.com/feed/@'' @ n) ''user'' ''text/xml''"
  using assms by (auto simp: user_def nonempty_string_iff BASE_def)

lemma publication_call:
  assumes "n \<noteq> []" and "proxy this = JBool False \<and> pre = [] \<or> proxy this = JStr pre \<and> pre \<noteq> []"
  shows "publication e this (JStr n) JUndefined =
     getRSS e this (pre @ ''https://medium.com/feed/'' @ n) ''publication'' ''text/xml''"
  using assms by (auto simp: publication_def nonempty_string_iff BASE_def)

lemma publication_tag_call:
  assumes "n \<noteq> []" and "t \<noteq> []"
    and "proxy this = JBool False \<and> pre = [] \<or> proxy this = JStr pre \<and> pre \<noteq> []"
  shows "publication e this (JStr n) (JStr t) =
     getRSS e this (pre @ ''https://medium.com/feed/'' @ n @ ''/tagged/'' @ t)
       ''publication'' ''text/xml''"
  using assms by (auto simp: publication_def nonempty_string_iff BASE_def)

lemma topic_call:
  assumes "n \<noteq> []" and "proxy this = JBool False \<and> pre = [] \<or> proxy this = JStr pre \<and> pre \<noteq> []"
  shows "topic e this (JStr n) =
     getRSS e this (pre @ ''https://medium.com/feed/topic/'' @ n) ''topic'' ''text/xml''"
  using assms by (auto simp: topic_def nonempty_string_iff BASE_def)

lemma tag_call:
  assumes "n \<noteq> []" and "proxy this = JBool False \<and> pre = [] \<or> proxy this = JStr pre \<and> pre \<noteq> []"
  shows "tag e this (JStr n) =
     getRSS e this (pre @ ''https://medium.com/feed/tag/'' @ n) ''tag'' ''text/xml''"
  using assms by (auto simp: tag_def nonempty_string_iff BASE_def)

lemma topics_call:
  assumes "proxy this = JBool False \<and> pre = [] \<or> proxy this = JStr pre \<and> pre \<noteq> []"
  shows "topics e this =
     getTopics e this (pre @ ''https://medium.com/topics?format=json'') ''application/json''"
  using assms by (auto simp: topics_def BASE_def)

text \<open>
  C2. For a client the constructor returned, a non-empty name and a non-empty tag, each
  method applies the transport to exactly one URL, the documented one: behind the proxy
  string when the client has one, bare when its proxy is \<^verbatim>\<open>false\<close>. The client's proxy
  is the \<^verbatim>\<open>proxy\<close> option when that is a non-empty string, and \<^verbatim>\<open>false\<close> when the option
  is falsy. The outcome of each call is what the validator, the decoder and the
  formatter make of the transport's answer on that URL.
\<close>

theorem request_urls:
  assumes "Meed e options = Inr this" and "name \<noteq> []" and "tg \<noteq> []"
  shows "(\<forall>p. get_prop (default_options options) ''proxy'' = Inr p \<longrightarrow>
            proxy this = (if truthy p then p else JBool False)) \<and>
         (\<exists>pre. (proxy this = JBool False \<and> pre = [] \<or> proxy this = JStr pre \<and> pre \<noteq> []) \<and>
            user e this (JStr name) =
              getRSS e this (pre @ ''https://medium.com/feed/@'' @ name) ''user'' ''text/xml'' \<and>
            publication e this (JStr name) JUndefined =
              getRSS e this (pre @ ''https://medium.com/feed/'' @ name)
                ''publication'' ''text/xml'' \<and>
            publication e this (JStr name) (JStr tg) =
              getRSS e this (pre @ ''https://medium.com/feed/'' @ name @ ''/tagged/'' @ tg)
                ''publication'' ''text/xml'' \<and>
            topic e this (JStr name) =
              getRSS e this (pre @ ''https://medium.com/feed/topic/'' @ name)
                ''topic'' ''text/xml'' \<and>
            tag e this (JStr name) =
              getRSS e this (pre @ ''https://medium.com/feed/tag/'' @ name) ''tag'' ''text/xml'' \<and>
            topics e this =
              getTopics e this (pre @ ''https://medium.com/topics?format=json'')
                ''application/json'') \<and>
         (\<forall>url kind ct. getRSS e this url kind ct =
            ([url], andThen (call_fun (fetch this) url) (\<lambda>res.
                    andThen (check res ct) (\<lambda>rss.
                    andThen (parseRSS e rss) (\<lambda>json. formatRSS e json kind))))) \<and>
         (\<forall>url ct. getTopics e this url ct =
            ([url], andThen (call_fun (fetch this) url) (\<lambda>res.
                    andThen (check res ct) (\<lambda>body.
                    andThen (parseTopics e body None) (\<lambda>json. formatTopics e json)))))"
proof -
  have a: "proxy this = (if truthy p then p else JBool False)"
    if "get_prop (default_options options) ''proxy'' = Inr p" for p
    using Meed_Inr [OF assms(1)] that by auto
  from Meed_proxy_cases [OF assms(1)] obtain pre where
    c: "proxy this = JBool False \<and> pre = [] \<or> proxy this = JStr pre \<and> pre \<noteq> []"
    by blast
  note u = user_call [OF assms(2) c, of e]
  note p1 = publication_call [OF assms(2) c, of e]
  note p2 = publication_tag_call [OF assms(2,3) c, of e]
  note t1 = topic_call [OF assms(2) c, of e]
  note t2 = tag_call [OF assms(2) c, of e]
  note t3 = topics_call [OF c, of e]
  from c u p1 p2 t1 t2 t3
  have b: "\<exists>pre. (proxy this = JBool False \<and> pre = [] \<or> proxy this = JStr pre \<and> pre \<noteq> []) \<and>
            user e this (JStr name) =
              getRSS e this (pre @ ''https://medium.com/feed/@'' @ name) ''user'' ''text/xml'' \<and>
            publication e this (JStr name) JUndefined =
              getRSS e this (pre @ ''https://medium.com/feed/'' @ name)
                ''publication'' ''text/xml'' \<and>
            publication e this (JStr name) (JStr tg) =
              getRSS e this (pre @ ''https://medium.com/feed/'' @ name @ ''/tagged/'' @ tg)
                ''publication'' ''text/xml'' \<and>
            topic e this (JStr name) =
              getRSS e this (pre @ ''https://medium.com/feed/topic/'' @ name)
                ''topic'' ''text/xml'' \<and>
            tag e this (JStr name) =
              getRSS e this (pre @ ''https://medium.com/feed/tag/'' @ name) ''tag'' ''text/xml'' \<and>
            topics e this =
              getTopics e this (pre @ ''https://medium.com/topics?format=json'')
                ''application/json''"
    by blast
  from a b getRSS_unfold [of e this] getTopics_unfold [of e this] show ?thesis
    by blast
qed

lemma Meed_demo_options:
  "Meed demo_env demo_options = Inr \<lparr> proxy = JStr ''https://cors.io/?'', fetch = JFun demo_fetch \<rparr>"
  by (simp add: Meed_def default_options_def demo_options_def demo_env_def Let_def)

lemma Meed_demo_fetch_only:
  "Meed demo_env (JObj [(''fetch'', JFun demo_fetch)]) = Inr demo_client"
  by (simp add: Meed_def default_options_def demo_env_def demo_client_def Let_def)

theorem request_urls_witness:
  "user demo_env \<lparr> proxy = JStr ''https://cors.io/?'', fetch = JFun demo_fetch \<rparr> (JStr ''alice'')
     = ([''https://cors.io/?https://medium.com/feed/@alice''],
        Inl (Error ''Response code not OK: 404'')) \<and>
   user demo_env demo_client (JStr ''alice'')
     = ([''https://medium.com/feed/@alice''], formatRSS demo_env demo_feed ''user'') \<and>
   fst (publication demo_env demo_client (JStr ''foo'') (JStr ''bar''))
     = [''https://medium.com/feed/foo/tagged/bar'']"
proof -
  let ?proxied = "\<lparr> proxy = JStr ''https://cors.io/?'', fetch = JFun demo_fetch \<rparr>"
  have ne: "''alice'' \<noteq> []" "''foo'' \<noteq> []" "''bar'' \<noteq> []" by simp_all
  have f1: "call_fun (fetch ?proxied) ''https://cors.io/?https://medium.com/feed/@alice''
      = Inr demo_404_response"
    by (simp add: call_fun_def demo_fetch_def)
  have f2: "call_fun (fetch demo_client) ''https://medium.com/feed/@alice'' = Inr demo_xml_response"
    by (simp add: call_fun_def demo_fetch_def demo_client_def)
  have c1: "check demo_404_response ''text/xml'' = Inl (Error ''Response code not OK: 404'')"
    by (simp add: check_def demo_404_response_def dec_404)
  have "includes_str (toLowerCase ''Text/XML; charset=UTF-8'') ''text/xml''"
    unfolding lower_demo by simp
  then have c2: "check demo_xml_response ''text/xml'' = Inr ''<rss/>''"
    by (simp add: check_def demo_xml_response_def)
  have p: "parseRSS demo_env ''<rss/>'' = Inr demo_feed"
    by (simp add: parseRSS_def demo_env_def)
  from request_urls [OF Meed_demo_options ne(1) ne(3)]
  have "user demo_env ?proxied (JStr ''alice'') =
      ([''https://cors.io/?'' @ ''https://medium.com/feed/@'' @ ''alice''],
       andThen (call_fun (fetch ?proxied) (''https://cors.io/?'' @ ''https://medium.com/feed/@'' @ ''alice''))
         (\<lambda>res. andThen (check res ''text/xml'') (\<lambda>rss.
            andThen (parseRSS demo_env rss) (\<lambda>json. formatRSS demo_env json ''user''))))"
    by auto
  with f1 c1 have a: "user demo_env ?proxied (JStr ''alice'')
     = ([''https://cors.io/?https://medium.com/feed/@alice''],
        Inl (Error ''Response code not OK: 404''))"
    by simp
  from request_urls [OF Meed_demo_fetch_only ne(1) ne(3)]
  have "user demo_env demo_client (JStr ''alice'') =
      ([[] @ ''https://medium.com/feed/@'' @ ''alice''],
       andThen (call_fun (fetch demo_client) ([] @ ''https://medium.com/feed/@'' @ ''alice''))
         (\<lambda>res. andThen (check res ''text/xml'') (\<lambda>rss.
            andThen (parseRSS demo_env rss) (\<lambda>json. formatRSS demo_env json ''user''))))"
    by (auto simp: demo_client_def)
  with f2 c2 p have b: "user demo_env demo_client (JStr ''alice'')
     = ([''https://medium.com/feed/@alice''], formatRSS demo_env demo_feed ''user'')"
    by simp
  from request_urls [OF Meed_demo_fetch_only ne(2) ne(3)]
  have c: "fst (publication demo_env demo_client (JStr ''foo'') (JStr ''bar''))
     = [''https://medium.com/feed/foo/tagged/bar'']"
    by (auto simp: demo_client_def)
  from a b c show ?thesis by blast
qed

text \<open>
  C7. For an argument that is no non-empty string, \<^verbatim>\<open>user\<close>, \<^verbatim>\<open>publication\<close>, \<^verbatim>\<open>topic\<close> and
  \<^verbatim>\<open>tag\<close> reject with a \<^verbatim>\<open>TypeError\<close> and hand the transport no URL. A tag given to
  \<^verbatim>\<open>publication\<close> (one that is not \<^verbatim>\<open>undefined\<close>) that is no non-empty string does the
  same, with the message "Tag must be a string" when the publication name is valid.
\<close>

theorem invalid_argument_no_request:
  assumes "\<not> (\<exists>s. v = JStr s \<and> s \<noteq> [])"
  shows "user e this v = ([], Inl (TypeError ''User is required and must be a string'')) \<and>
         publication e this v tg =
           ([], Inl (TypeError ''Publication is required and must be a string'')) \<and>
         topic e this v = ([], Inl (TypeError ''Topic is required and must be a string'')) \<and>
         tag e this v = ([], Inl (TypeError ''Tag is required and must be a string'')) \<and>
         (v \<noteq> JUndefined \<longrightarrow>
            (\<exists>msg. publication e this pub v = ([], Inl (TypeError msg))) \<and>
            (\<forall>n. n \<noteq> [] \<longrightarrow>
               publication e this (JStr n) v = ([], Inl (TypeError ''Tag must be a string''))))"
proof -
  from assms have n: "\<not> nonempty_string v"
    by (simp add: nonempty_string_iff)
  then have a: "user e this v = ([], Inl (TypeError ''User is required and must be a string''))"
    by (simp add: reject_def user_def)
  from n have b: "publication e this v tg =
      ([], Inl (TypeError ''Publication is required and must be a string''))"
    by (simp add: reject_def publication_def)
  from n have c: "topic e this v = ([], Inl (TypeError ''Topic is required and must be a string''))"
    by (simp add: reject_def topic_def)
  from n have d: "tag e this v = ([], Inl (TypeError ''Tag is required and must be a string''))"
    by (simp add: reject_def tag_def)
  have f: "\<exists>msg. publication e this pub v = ([], Inl (TypeError msg))" if "v \<noteq> JUndefined"
    using n that by (simp add: reject_def publication_def)
  have g: "publication e this (JStr k) v = ([], Inl (TypeError ''Tag must be a string''))"
    if "v \<noteq> JUndefined" "k \<noteq> []" for k
    using n that by (simp add: reject_def publication_def nonempty_string_iff)
  from a b c d f g show ?thesis by blast
qed

theorem invalid_argument_no_request_witness:
  "topic demo_env demo_client (JStr []) =
     ([], Inl (TypeError ''Topic is required and must be a string'')) \<and>
   user demo_env demo_client (JNum 7) =
     ([], Inl (TypeError ''User is required and must be a string'')) \<and>
   publication demo_env demo_client (JStr ''foo'') JNull =
     ([], Inl (TypeError ''Tag must be a string''))"
proof -
  have e: "\<not> (\<exists>s. JStr [] = JStr s \<and> s \<noteq> [])" by simp
  have n: "\<not> (\<exists>s. JNum 7 = JStr s \<and> s \<noteq> [])" by simp
  have u: "\<not> (\<exists>s. JNull = JStr s \<and> s \<noteq> [])" by simp
  from invalid_argument_no_request [OF e, of demo_env demo_client]
  have a: "topic demo_env demo_client (JStr []) =
     ([], Inl (TypeError ''Topic is required and must be a string''))"
    by blast
  from invalid_argument_no_request [OF n, of demo_env demo_client]
  have b: "user demo_env demo_client (JNum 7) =
     ([], Inl (TypeError ''User is required and must be a string''))"
    by blast
  have "JNull \<noteq> JUndefined" "''foo'' \<noteq> []" by simp_all
  with invalid_argument_no_request [OF u, of demo_env demo_client]
  have c: "publication demo_env demo_client (JStr ''foo'') JNull =
     ([], Inl (TypeError ''Tag must be a string''))"
    by blast
  from a b c show ?thesis by blast
qed

lemma Meed_Inl_good_proxy:
  assumes "get_prop (default_options options) ''proxy'' = Inr p"
    and "\<not> truthy p \<or> typeof p = ''string''"
    and "Meed e options = Inl err"
  shows "err = EngineTypeError \<or> err = TypeError ''Fetch is required and must be a function''"
  using assms(3) unfolding Meed_good_proxy [OF assms(1,2)]
  by (auto dest!: andThen_Inl_cases dest: get_prop_Inl split: if_splits)

lemma Meed_injected:
  assumes "get_prop (default_options options) ''proxy'' = Inr p"
    and "\<not> truthy p \<or> typeof p = ''string''"
    and "typeof (self e) \<noteq> ''object'' \<or>
         (\<exists>sf. get_prop (self e) ''fetch'' = Inr sf \<and> typeof sf \<noteq> ''function'')"
    and "get_prop (default_options options) ''fetch'' = Inr f"
  shows "Meed e options =
     (if typeof f \<noteq> ''function''
      then Inl (TypeError ''Fetch is required and must be a function'')
      else Inr \<lparr> proxy = (if truthy p then p else JBool False), fetch = f \<rparr>)"
  using assms(3,4) unfolding Meed_good_proxy [OF assms(1,2)]
  by auto

lemma Meed_ambient:
  assumes "get_prop (default_options options) ''proxy'' = Inr p"
    and "\<not> truthy p \<or> typeof p = ''string''"
    and "typeof (self e) = ''object''"
    and "get_prop (self e) ''fetch'' = Inr (JFun g)"
  shows "Meed e options = Inr \<lparr> proxy = (if truthy p then p else JBool False), fetch = JFun g \<rparr>"
  using assms(3,4) unfolding Meed_good_proxy [OF assms(1,2)]
  by simp

text \<open>
  C8, as the code has it. With \<open>p\<close> the \<^verbatim>\<open>proxy\<close> option: construction fails with the
  \<^verbatim>\<open>TypeError\<close> "Proxy must be a string" when \<open>p\<close> is truthy and no string. A falsy \<open>p\<close>
  (absent, \<^verbatim>\<open>undefined\<close>, \<^verbatim>\<open>null\<close>, \<^verbatim>\<open>false\<close>, zero, \<^verbatim>\<open>NaN\<close>, the empty string) and a
  non-empty string never raise that error: where no global \<^verbatim>\<open>self\<close> object exists and
  \<^verbatim>\<open>options.fetch\<close> is a function, construction returns a client whose proxy is \<^verbatim>\<open>false\<close>
  for a falsy \<open>p\<close> and \<open>p\<close> itself for a non-empty string.
\<close>

theorem Meed_proxy_option:
  assumes "get_prop (default_options options) ''proxy'' = Inr p"
  shows "(truthy p \<and> typeof p \<noteq> ''string'' \<longrightarrow>
            Meed e options = Inl (TypeError ''Proxy must be a string'')) \<and>
         (\<not> truthy p \<or> typeof p = ''string'' \<longrightarrow>
            Meed e options \<noteq> Inl (TypeError ''Proxy must be a string'') \<and>
            (\<forall>g. typeof (self e) \<noteq> ''object'' \<and>
                 get_prop (default_options options) ''fetch'' = Inr (JFun g) \<longrightarrow>
               Meed e options =
                 Inr \<lparr> proxy = (if truthy p then p else JBool False), fetch = JFun g \<rparr>))"
proof -
  have a: "Meed e options = Inl (TypeError ''Proxy must be a string'')"
    if "truthy p" "typeof p \<noteq> ''string''"
    using Meed_bad_proxy [OF assms that] .
  have b: "Meed e options \<noteq> Inl (TypeError ''Proxy must be a string'')"
    if "\<not> truthy p \<or> typeof p = ''string''"
    using Meed_Inl_good_proxy [OF assms that] by auto
  have c: "Meed e options = Inr \<lparr> proxy = (if truthy p then p else JBool False), fetch = JFun g \<rparr>"
    if "\<not> truthy p \<or> typeof p = ''string''" "typeof (self e) \<noteq> ''object''"
      "get_prop (default_options options) ''fetch'' = Inr (JFun g)" for g
    using Meed_injected [OF assms that(1) _ that(3)] that(2) by simp
  from a b c show ?thesis by blast
qed

theorem Meed_proxy_option_witness:
  "Meed demo_env (JObj [(''proxy'', JBool True), (''fetch'', JFun demo_fetch)])
     = Inl (TypeError ''Proxy must be a string'') \<and>
   Meed demo_env (JObj [(''proxy'', JStr []), (''fetch'', JFun demo_fetch)])
     = Inr \<lparr> proxy = JBool False, fetch = JFun demo_fetch \<rparr> \<and>
   Meed demo_env demo_options
     = Inr \<lparr> proxy = JStr ''https://cors.io/?'', fetch = JFun demo_fetch \<rparr>"
proof -
  let ?o1 = "JObj [(''proxy'', JBool True), (''fetch'', JFun demo_fetch)]"
  let ?o2 = "JObj [(''proxy'', JStr []), (''fetch'', JFun demo_fetch)]"
  have s: "typeof (self demo_env) \<noteq> ''object''"
    by (simp add: demo_env_def)
  have p1: "get_prop (default_options ?o1) ''proxy'' = Inr (JBool True)"
    by (simp add: default_options_def)
  have p2: "get_prop (default_options ?o2) ''proxy'' = Inr (JStr [])"
    "get_prop (default_options ?o2) ''fetch'' = Inr (JFun demo_fetch)"
    by (simp_all add: default_options_def)
  have p3: "get_prop (default_options demo_options) ''proxy'' = Inr (JStr ''https://cors.io/?'')"
    "get_prop (default_options demo_options) ''fetch'' = Inr (JFun demo_fetch)"
    by (simp_all add: default_options_def demo_options_def)
  from Meed_proxy_option [OF p1, of demo_env]
  have a: "Meed demo_env ?o1 = Inl (TypeError ''Proxy must be a string'')"
    by simp
  from Meed_proxy_option [OF p2(1), of demo_env] s p2(2)
  have b: "Meed demo_env ?o2 = Inr \<lparr> proxy = JBool False, fetch = JFun demo_fetch \<rparr>"
    by simp
  from Meed_proxy_option [OF p3(1), of demo_env] s p3(2)
  have c: "Meed demo_env demo_options
     = Inr \<lparr> proxy = JStr ''https://cors.io/?'', fetch = JFun demo_fetch \<rparr>"
    by simp
  from a b c show ?thesis by blast
qed

theorem Meed_null_proxy_counterexample:
  "Meed demo_env (JObj [(''proxy'', JNull), (''fetch'', JFun demo_fetch)])
     = Inr \<lparr> proxy = JBool False, fetch = JFun demo_fetch \<rparr>"
  by (simp add: Meed_def default_options_def demo_env_def Let_def)

text \<open>
  C9, as the code has it. With a \<^verbatim>\<open>proxy\<close> option the constructor accepts: when the global
  \<^verbatim>\<open>self\<close> is an object whose \<^verbatim>\<open>fetch\<close> is a function, the client's transport is that
  function, whatever \<^verbatim>\<open>options.fetch\<close> is; when there is no such global, the transport is
  \<^verbatim>\<open>options.fetch\<close> if that is a function, and construction fails with the \<^verbatim>\<open>TypeError\<close>
  "Fetch is required and must be a function" if it is not. Whatever the options, when
  neither the global nor the option is a function, construction fails with a
  \<^verbatim>\<open>TypeError\<close>.
\<close>

theorem Meed_transport:
  "(\<forall>p g. get_prop (default_options options) ''proxy'' = Inr p \<and>
      (\<not> truthy p \<or> typeof p = ''string'') \<and>
      typeof (self e) = ''object'' \<and> get_prop (self e) ''fetch'' = Inr (JFun g) \<longrightarrow>
      Meed e options = Inr \<lparr> proxy = (if truthy p then p else JBool False), fetch = JFun g \<rparr>) \<and>
   (\<forall>p f. get_prop (default_options options) ''proxy'' = Inr p \<and>
      (\<not> truthy p \<or> typeof p = ''string'') \<and>
      (typeof (self e) \<noteq> ''object'' \<or>
       (\<exists>sf. get_prop (self e) ''fetch'' = Inr sf \<and> typeof sf \<noteq> ''function'')) \<and>
      get_prop (default_options options) ''fetch'' = Inr f \<longrightarrow>
      Meed e options =
        (if typeof f = ''function''
         then Inr \<lparr> proxy = (if truthy p then p else JBool False), fetch = f \<rparr>
         else Inl (TypeError ''Fetch is required and must be a function''))) \<and>
   (\<not> (typeof (self e) = ''object'' \<and> (\<exists>g. get_prop (self e) ''fetch'' = Inr (JFun g))) \<and>
    \<not> (\<exists>g. get_prop (default_options options) ''fetch'' = Inr (JFun g)) \<longrightarrow>
      (\<exists>err. Meed e options = Inl err \<and> (err = EngineTypeError \<or> (\<exists>m. err = TypeError m))))"
proof -
  have a: "Meed e options = Inr \<lparr> proxy = (if truthy p then p else JBool False), fetch = JFun g \<rparr>"
    if "get_prop (default_options options) ''proxy'' = Inr p"
      "\<not> truthy p \<or> typeof p = ''string''"
      "typeof (self e) = ''object''" "get_prop (self e) ''fetch'' = Inr (JFun g)" for p g
    using Meed_ambient [OF that] .
  have b: "Meed e options =
        (if typeof f = ''function''
         then Inr \<lparr> proxy = (if truthy p then p else JBool False), fetch = f \<rparr>
         else Inl (TypeError ''Fetch is required and must be a function''))"
    if "get_prop (default_options options) ''proxy'' = Inr p"
      "\<not> truthy p \<or> typeof p = ''string''"
      "typeof (self e) \<noteq> ''object'' \<or>
       (\<exists>sf. get_prop (self e) ''fetch'' = Inr sf \<and> typeof sf \<noteq> ''function'')"
      "get_prop (default_options options) ''fetch'' = Inr f" for p f
    using Meed_injected [OF that] by simp
  have c: "\<exists>err. Meed e options = Inl err \<and> (err = EngineTypeError \<or> (\<exists>m. err = TypeError m))"
    if na: "\<not> (typeof (self e) = ''object'' \<and> (\<exists>g. get_prop (self e) ''fetch'' = Inr (JFun g)))"
      and ni: "\<not> (\<exists>g. get_prop (default_options options) ''fetch'' = Inr (JFun g))"
  proof (cases "Meed e options")
    case (Inl err)
    show ?thesis
    proof (cases "get_prop (default_options options) ''proxy''")
      case bad: (Inl x)
      with Inl have "err = EngineTypeError"
        by (auto simp: Meed_def Let_def dest: get_prop_Inl)
      with Inl show ?thesis by simp
    next
      case p: (Inr p)
      show ?thesis
      proof (cases "\<not> truthy p \<or> typeof p = ''string''")
        case True
        from Meed_Inl_good_proxy [OF p True Inl] Inl show ?thesis by auto
      next
        case False
        then have "truthy p" "typeof p \<noteq> ''string''" by auto
        from Meed_bad_proxy [OF p this] show ?thesis by simp
      qed
    qed
  next
    case (Inr this)
    from Meed_Inr [OF Inr] obtain p where
      p: "get_prop (default_options options) ''proxy'' = Inr p" and
      ok: "\<not> truthy p \<or> typeof p = ''string''"
      by blast
    from Inr obtain amb f where
      amb: "(if typeof (self e) = ''object''
              then andThen (get_prop (self e) ''fetch'') (\<lambda>sf. Inr (typeof sf = ''function''))
              else Inr False) = Inr amb" and
      f: "(if amb then get_prop (self e) ''fetch''
              else get_prop (default_options options) ''fetch'') = Inr f" and
      r: "(if typeof f \<noteq> ''function''
           then Inl (TypeError ''Fetch is required and must be a function'')
           else Inr \<lparr> proxy = (if truthy p then p else JBool False), fetch = f \<rparr>) = Inr this"
      unfolding Meed_good_proxy [OF p ok]
      by (blast dest: andThen_Inr_cases)
    from r obtain g where g: "f = JFun g"
      by (auto simp: typeof_function split: if_splits)
    show ?thesis
    proof (cases amb)
      case True
      with amb have "typeof (self e) = ''object''"
        by (auto split: if_splits)
      with True f g na show ?thesis by simp
    next
      case False
      with f g ni show ?thesis by simp
    qed
  qed
  from a b c show ?thesis by blast
qed

theorem Meed_transport_witness:
  "Meed demo_browser_env (JObj [(''fetch'', JNum 1)])
     = Inr \<lparr> proxy = JBool False, fetch = JFun ambient_fetch \<rparr> \<and>
   Meed demo_env (JObj [(''fetch'', JFun demo_fetch)])
     = Inr \<lparr> proxy = JBool False, fetch = JFun demo_fetch \<rparr> \<and>
   Meed demo_env JUndefined = Inl (TypeError ''Fetch is required and must be a function'')"
proof -
  let ?o1 = "JObj [(''fetch'', JNum 1)]"
  let ?o2 = "JObj [(''fetch'', JFun demo_fetch)]"
  have s1: "typeof (self demo_browser_env) = ''object''"
    "get_prop (self demo_browser_env) ''fetch'' = Inr (JFun ambient_fetch)"
    by (simp_all add: demo_browser_env_def)
  have s2: "typeof (self demo_env) \<noteq> ''object''"
    by (simp add: demo_env_def)
  have p1: "get_prop (default_options ?o1) ''proxy'' = Inr JUndefined"
    by (simp add: default_options_def)
  have p2: "get_prop (default_options ?o2) ''proxy'' = Inr JUndefined"
    "get_prop (default_options ?o2) ''fetch'' = Inr (JFun demo_fetch)"
    by (simp_all add: default_options_def)
  have p3: "get_prop (default_options JUndefined) ''proxy'' = Inr JUndefined"
    "get_prop (default_options JUndefined) ''fetch'' = Inr JUndefined"
    by (simp_all add: default_options_def)
  have t: "\<not> truthy JUndefined" by simp
  have "Meed demo_browser_env ?o1 =
      Inr \<lparr> proxy = (if truthy JUndefined then JUndefined else JBool False),
            fetch = JFun ambient_fetch \<rparr>"
    using Meed_transport [of ?o1 demo_browser_env] p1 t s1 by blast
  then have a: "Meed demo_browser_env ?o1 = Inr \<lparr> proxy = JBool False, fetch = JFun ambient_fetch \<rparr>"
    by simp
  have "Meed demo_env ?o2 =
      (if typeof (JFun demo_fetch) = ''function''
       then Inr \<lparr> proxy = (if truthy JUndefined then JUndefined else JBool False),
                  fetch = JFun demo_fetch \<rparr>
       else Inl (TypeError ''Fetch is required and must be a function''))"
    using Meed_transport [of ?o2 demo_env] p2 t s2 by blast
  then have b: "Meed demo_env ?o2 = Inr \<lparr> proxy = JBool False, fetch = JFun demo_fetch \<rparr>"
    by simp
  have "Meed demo_env JUndefined =
      (if typeof JUndefined = ''function''
       then Inr \<lparr> proxy = (if truthy JUndefined then JUndefined else JBool False),
                  fetch = JUndefined \<rparr>
       else Inl (TypeError ''Fetch is required and must be a function''))"
    using Meed_transport [of JUndefined demo_env] p3 t s2 by blast
  then have c: "Meed demo_env JUndefined =
      Inl (TypeError ''Fetch is required and must be a function'')"
    by simp
  from a b c show ?thesis by blast
qed

theorem Meed_prefers_ambient_counterexample:
  "Meed demo_browser_env (JObj [(''fetch'', JFun demo_fetch)])
     = Inr \<lparr> proxy = JBool False, fetch = JFun ambient_fetch \<rparr> \<and>
   ambient_fetch ''https://medium.com/feed/@alice'' \<noteq> demo_fetch ''https://medium.com/feed/@alice''"
  by (simp add: Meed_def default_options_def demo_browser_env_def demo_env_def Let_def
      ambient_fetch_def demo_fetch_def)

end
